theory Spec2Isabelle
  imports Main "HOL-Library.Word"
begin

section \<open>teamigrate: the data model of \<^verbatim>\<open>main.go\<close>\<close>

text \<open>
  The program is one Go file. Its four struct types become records. Go strings are byte
  sequences, so they are \<^typ>\<open>string\<close>; \<^verbatim>\<open>int64\<close> is a 64-bit word;
  the HTTP status code, a Go \<^verbatim>\<open>int\<close> that is only compared with constants, is an
  \<^typ>\<open>int\<close>. Two structs share the field names \<^verbatim>\<open>Description\<close> and
  \<^verbatim>\<open>Private\<close>; the records keep them, and the text below writes the qualified
  name where both are in scope.
\<close>

record programOptions =
  GiteaInstance :: string
  GitHubToken :: string
  GiteaToken :: string
  GiteaOwner :: string

record GitHubRepo =
  CloneURL :: string
  Description :: string
  Name :: string
  Private :: bool

record MigrateRepoOptions =
  AuthToken :: string
  CloneAddr :: string
  Description :: string
  Mirror :: bool
  Private :: bool
  RepoName :: string
  RepoOwner :: string
  Service :: string
  Wiki :: bool

record GiteaRepo =
  Id :: "64 word"
  HtmlUrl :: string

text \<open>
  Go's \<^verbatim>\<open>error\<close> values are opaque to the program: every one of them is only
  printed. The model keeps the kind of the failure and a text.
\<close>

datatype error =
    EOF
  | SyntaxError
  | UnmarshalTypeError string
  | URLError string
  | TransportError string
  | ReadError string
  | CloseError string

subsection \<open>The environment: \<^verbatim>\<open>os.Getenv\<close> and \<^verbatim>\<open>loadOptions\<close>\<close>

definition Getenv :: "(string \<rightharpoonup> string) \<Rightarrow> string \<Rightarrow> string" where
  "Getenv env k = (case env k of None \<Rightarrow> [] | Some v \<Rightarrow> v)"

definition loadOptions :: "(string \<rightharpoonup> string) \<Rightarrow> programOptions" where
  "loadOptions env =
     \<lparr> GiteaInstance = Getenv env ''GITEA_INSTANCE'',
       GitHubToken = Getenv env ''GITHUB_TOKEN'',
       GiteaToken = Getenv env ''GITEA_TOKEN'',
       GiteaOwner = Getenv env ''GITEA_OWNER'' \<rparr>"

section \<open>Reading the line\<close>

text \<open>
  \<^verbatim>\<open>reader.ReadString('\n')\<close> returns the bytes up to and including the first
  delimiter; when the input ends before a delimiter it returns what it has read together
  with \<^verbatim>\<open>io.EOF\<close>. The argument is what standard input still holds until its end.
\<close>

definition ReadString :: "char \<Rightarrow> string \<Rightarrow> string \<times> error option" where
  "ReadString delim input =
     (let line = takeWhile (\<lambda>c. c \<noteq> delim) input
      in if length line < length input then (line @ [delim], None) else (input, Some EOF))"

text \<open>
  The slice expression \<^verbatim>\<open>s[:n]\<close>: Go panics unless \<open>0 \<le> n \<le> len(s)\<close>.
\<close>

definition sliceTo :: "string \<Rightarrow> int \<Rightarrow> string option" where
  "sliceTo s n = (if 0 \<le> n \<and> n \<le> int (length s) then Some (take (nat n) s) else None)"

section \<open>The URL pattern\<close>

text \<open>
  \<^verbatim>\<open>regexp.MustCompile(`github\.com/([^/]+)/([^/]+)`)\<close>. The pattern is a
  sequence of literal bytes and of capture groups \<^verbatim>\<open>([^c]+)\<close>, so the compiled
  program is a list of such nodes. Go matches runes; every byte the pattern names is ASCII
  and \<^verbatim>\<open>[^/]\<close> accepts every other rune whole, so matching bytes gives the same
  captures.
\<close>

datatype node = Lit char | GroupPlusNot char

definition re :: "node list" where
  "re = map Lit ''github.com/'' @ [GroupPlusNot CHR ''/'', Lit CHR ''/'', GroupPlusNot CHR ''/'']"

fun firstSome :: "('a \<Rightarrow> 'b option) \<Rightarrow> 'a list \<Rightarrow> 'b option" where
  "firstSome f [] = None"
| "firstSome f (x # xs) = (case f x of Some y \<Rightarrow> Some y | None \<Rightarrow> firstSome f xs)"

text \<open>
  A match of the nodes at the start of the text: the number of bytes consumed and the
  captured groups. The repetition is greedy with backtracking, as in Go's leftmost-first
  semantics: the longest run is tried first, then each shorter one down to one byte.
\<close>

fun matchHere :: "node list \<Rightarrow> string \<Rightarrow> (nat \<times> string list) option" where
  "matchHere [] s = Some (0, [])"
| "matchHere (Lit c # p) s =
     (case s of
        [] \<Rightarrow> None
      | x # t \<Rightarrow>
          if x = c then map_option (\<lambda>(n, caps). (Suc n, caps)) (matchHere p t) else None)"
| "matchHere (GroupPlusNot c # p) s =
     (let k = length (takeWhile (\<lambda>x. x \<noteq> c) s)
      in firstSome
           (\<lambda>n. map_option (\<lambda>(m, caps). (n + m, take n s # caps)) (matchHere p (drop n s)))
           (rev [1..<Suc k]))"

text \<open>
  \<^verbatim>\<open>FindStringSubmatch\<close>: the leftmost match, as the slice of the whole match
  followed by the groups; \<^verbatim>\<open>nil\<close> (the empty slice) when nothing matches.
\<close>

fun FindStringSubmatch :: "node list \<Rightarrow> string \<Rightarrow> string list" where
  "FindStringSubmatch p s =
     (case matchHere p s of
        Some (n, caps) \<Rightarrow> take n s # caps
      | None \<Rightarrow> (case s of [] \<Rightarrow> [] | x # t \<Rightarrow> FindStringSubmatch p t))"

section \<open>JSON values and \<^verbatim>\<open>encoding/json\<close>\<close>

text \<open>
  The bytes of an HTTP body are either not a JSON text, or the text of one JSON value.
  \<^verbatim>\<open>json.Unmarshal\<close> checks the syntax of the whole input first and fails
  with a syntax error before it stores anything; after that only the value matters. A
  number is kept as an integer when its literal has neither fraction nor exponent, since
  that is what decides whether it fits an \<^verbatim>\<open>int64\<close> field; the members of an
  object keep their order and their duplicates.
\<close>

datatype json =
    JNull
  | JBool bool
  | JInt int
  | JFloat string
  | JString string
  | JArray "json list"
  | JObject "(string \<times> json) list"

datatype document = Malformed string | Wellformed json

text \<open>
  A member of an object goes to the struct field whose JSON name equals its key, exactly
  or under Unicode simple case folding. The field names here are ASCII, and the only
  non-ASCII runes that fold to ASCII letters are U+017F (long s, bytes C5 BF) and U+212A
  (Kelvin sign, bytes E2 84 AA).
\<close>

definition toUpperASCII :: "char \<Rightarrow> char" where
  "toUpperASCII c =
     (let n = (of_char c :: nat) in if 97 \<le> n \<and> n \<le> 122 then char_of (n - 32) else c)"

fun foldName :: "string \<Rightarrow> string" where
  "foldName (a # b # c # cs) =
     (if [a, b, c] = [CHR 0xE2, CHR 0x84, CHR 0xAA] then CHR ''K'' # foldName cs
      else if [a, b] = [CHR 0xC5, CHR 0xBF] then CHR ''S'' # foldName (c # cs)
      else toUpperASCII a # foldName (b # c # cs))"
| "foldName [a, b] =
     (if [a, b] = [CHR 0xC5, CHR 0xBF] then [CHR ''S''] else toUpperASCII a # foldName [b])"
| "foldName [a] = [toUpperASCII a]"
| "foldName [] = []"

definition equalFold :: "string \<Rightarrow> string \<Rightarrow> bool" where
  "equalFold key name = (foldName key = foldName name)"

text \<open>
  Storing one JSON value into a field of a given Go type. \<^verbatim>\<open>null\<close> leaves a
  string, bool or integer field as it is; a value of another JSON type is an
  \<^verbatim>\<open>UnmarshalTypeError\<close>. An \<^verbatim>\<open>int64\<close> field takes an integer
  literal within range only. \<^verbatim>\<open>Unmarshal\<close> goes on after a type error and
  returns the first one at the end; both callers drop the struct when an error comes back,
  so the model stops at the first error.
\<close>

definition storeString :: "string \<Rightarrow> json \<Rightarrow> string \<Rightarrow> error + string" where
  "storeString field v old =
     (case v of JString s \<Rightarrow> Inr s | JNull \<Rightarrow> Inr old | _ \<Rightarrow> Inl (UnmarshalTypeError field))"

definition storeBool :: "string \<Rightarrow> json \<Rightarrow> bool \<Rightarrow> error + bool" where
  "storeBool field v old =
     (case v of JBool b \<Rightarrow> Inr b | JNull \<Rightarrow> Inr old | _ \<Rightarrow> Inl (UnmarshalTypeError field))"

definition storeInt64 :: "string \<Rightarrow> json \<Rightarrow> 64 word \<Rightarrow> error + 64 word" where
  "storeInt64 field v old =
     (case v of
        JInt i \<Rightarrow>
          if - (2 ^ 63) \<le> i \<and> i < 2 ^ 63 then Inr (word_of_int i)
          else Inl (UnmarshalTypeError field)
      | JNull \<Rightarrow> Inr old
      | _ \<Rightarrow> Inl (UnmarshalTypeError field))"

fun decodeGitHubRepo :: "(string \<times> json) list \<Rightarrow> GitHubRepo \<Rightarrow> error + GitHubRepo" where
  "decodeGitHubRepo [] repo = Inr repo"
| "decodeGitHubRepo ((key, v) # members) repo =
     (if equalFold key ''clone_url'' then
        (case storeString ''clone_url'' v (CloneURL repo) of
           Inl e \<Rightarrow> Inl e
         | Inr s \<Rightarrow> decodeGitHubRepo members (repo\<lparr>CloneURL := s\<rparr>))
      else if equalFold key ''description'' then
        (case storeString ''description'' v (GitHubRepo.Description repo) of
           Inl e \<Rightarrow> Inl e
         | Inr s \<Rightarrow> decodeGitHubRepo members (repo\<lparr>GitHubRepo.Description := s\<rparr>))
      else if equalFold key ''name'' then
        (case storeString ''name'' v (Name repo) of
           Inl e \<Rightarrow> Inl e
         | Inr s \<Rightarrow> decodeGitHubRepo members (repo\<lparr>Name := s\<rparr>))
      else if equalFold key ''private'' then
        (case storeBool ''private'' v (GitHubRepo.Private repo) of
           Inl e \<Rightarrow> Inl e
         | Inr b \<Rightarrow> decodeGitHubRepo members (repo\<lparr>GitHubRepo.Private := b\<rparr>))
      else decodeGitHubRepo members repo)"

fun decodeGiteaRepo :: "(string \<times> json) list \<Rightarrow> GiteaRepo \<Rightarrow> error + GiteaRepo" where
  "decodeGiteaRepo [] repo = Inr repo"
| "decodeGiteaRepo ((key, v) # members) repo =
     (if equalFold key ''id'' then
        (case storeInt64 ''id'' v (Id repo) of
           Inl e \<Rightarrow> Inl e
         | Inr i \<Rightarrow> decodeGiteaRepo members (repo\<lparr>Id := i\<rparr>))
      else if equalFold key ''html_url'' then
        (case storeString ''html_url'' v (HtmlUrl repo) of
           Inl e \<Rightarrow> Inl e
         | Inr s \<Rightarrow> decodeGiteaRepo members (repo\<lparr>HtmlUrl := s\<rparr>))
      else decodeGiteaRepo members repo)"

text \<open>
  \<^verbatim>\<open>var repo GitHubRepo\<close> and \<^verbatim>\<open>var giteaRepo GiteaRepo\<close>: the zero
  values the decoder starts from.
\<close>

definition zeroGitHubRepo :: GitHubRepo where
  "zeroGitHubRepo =
     \<lparr> CloneURL = [], GitHubRepo.Description = [], Name = [], GitHubRepo.Private = False \<rparr>"

definition zeroGiteaRepo :: GiteaRepo where
  "zeroGiteaRepo = \<lparr> Id = 0, HtmlUrl = [] \<rparr>"

text \<open>
  \<^verbatim>\<open>json.Unmarshal(body, &repo)\<close> into a struct: an object is decoded member by
  member, \<^verbatim>\<open>null\<close> has no effect, any other value is a type error.
\<close>

definition UnmarshalGitHubRepo :: "document \<Rightarrow> error + GitHubRepo" where
  "UnmarshalGitHubRepo data =
     (case data of
        Malformed _ \<Rightarrow> Inl SyntaxError
      | Wellformed v \<Rightarrow>
          (case v of
             JObject members \<Rightarrow> decodeGitHubRepo members zeroGitHubRepo
           | JNull \<Rightarrow> Inr zeroGitHubRepo
           | _ \<Rightarrow> Inl (UnmarshalTypeError ''GitHubRepo'')))"

definition UnmarshalGiteaRepo :: "document \<Rightarrow> error + GiteaRepo" where
  "UnmarshalGiteaRepo data =
     (case data of
        Malformed _ \<Rightarrow> Inl SyntaxError
      | Wellformed v \<Rightarrow>
          (case v of
             JObject members \<Rightarrow> decodeGiteaRepo members zeroGiteaRepo
           | JNull \<Rightarrow> Inr zeroGiteaRepo
           | _ \<Rightarrow> Inl (UnmarshalTypeError ''GiteaRepo'')))"

text \<open>
  \<^verbatim>\<open>json.Marshal\<close> writes a Go string as a JSON string of valid UTF-8: it
  decodes the bytes rune by rune, and every byte at which no well-formed encoding starts
  becomes U+FFFD (bytes EF BF BD). The width of the encoding at the start of a string
  follows \<^verbatim>\<open>utf8.DecodeRuneInString\<close>: the first byte gives the length and the
  range of the second byte (overlong forms, surrogates and code points above U+10FFFF are
  excluded by it), every further byte is a continuation byte; 0 stands for the error rune.
\<close>

definition byte :: "char \<Rightarrow> nat" where
  "byte c = of_char c"

definition accept :: "(nat \<times> nat) list \<Rightarrow> string \<Rightarrow> bool" where
  "accept ranges s =
     (length ranges \<le> length s \<and>
      list_all (\<lambda>((lo, hi), c). lo \<le> byte c \<and> byte c \<le> hi) (zip ranges s))"

definition runeWidth :: "string \<Rightarrow> nat" where
  "runeWidth s =
     (case s of
        [] \<Rightarrow> 0
      | b # t \<Rightarrow>
          if byte b < 0x80 then 1
          else if 0xC2 \<le> byte b \<and> byte b \<le> 0xDF then
            (if accept [(0x80, 0xBF)] t then 2 else 0)
          else if byte b = 0xE0 then
            (if accept [(0xA0, 0xBF), (0x80, 0xBF)] t then 3 else 0)
          else if 0xE1 \<le> byte b \<and> byte b \<le> 0xEC \<or> byte b = 0xEE \<or> byte b = 0xEF then
            (if accept [(0x80, 0xBF), (0x80, 0xBF)] t then 3 else 0)
          else if byte b = 0xED then
            (if accept [(0x80, 0x9F), (0x80, 0xBF)] t then 3 else 0)
          else if byte b = 0xF0 then
            (if accept [(0x90, 0xBF), (0x80, 0xBF), (0x80, 0xBF)] t then 4 else 0)
          else if 0xF1 \<le> byte b \<and> byte b \<le> 0xF3 then
            (if accept [(0x80, 0xBF), (0x80, 0xBF), (0x80, 0xBF)] t then 4 else 0)
          else if byte b = 0xF4 then
            (if accept [(0x80, 0x8F), (0x80, 0xBF), (0x80, 0xBF)] t then 4 else 0)
          else 0)"

text \<open>
  The loop over the string: at a byte that starts a well-formed encoding the whole
  encoding is copied (the first argument counts the bytes of it still to copy), at any
  other byte U+FFFD is written and the loop goes on with the next byte.
\<close>

fun coerce :: "nat \<Rightarrow> string \<Rightarrow> string" where
  "coerce n [] = []"
| "coerce (Suc n) (b # t) = b # coerce n t"
| "coerce 0 (b # t) =
     (if runeWidth (b # t) = 0 then [CHR 0xEF, CHR 0xBF, CHR 0xBD] @ coerce 0 t
      else b # coerce (runeWidth (b # t) - 1) t)"

definition toValidUTF8 :: "string \<Rightarrow> string" where
  "toValidUTF8 s = coerce 0 s"

text \<open>
  \<^verbatim>\<open>json.Marshal(migrateOptions)\<close>: an object with one member per field, in the
  order of the struct, named by the field's \<^verbatim>\<open>json\<close> tag; the strings are
  written as valid UTF-8. It cannot fail on a struct of strings and bools; the source
  checks the error all the same.
\<close>

definition Marshal :: "MigrateRepoOptions \<Rightarrow> error + document" where
  "Marshal m =
     Inr (Wellformed (JObject
       [ (''auth_token'', JString (toValidUTF8 (AuthToken m))),
         (''clone_addr'', JString (toValidUTF8 (CloneAddr m))),
         (''description'', JString (toValidUTF8 (MigrateRepoOptions.Description m))),
         (''mirror'', JBool (Mirror m)),
         (''private'', JBool (MigrateRepoOptions.Private m)),
         (''repo_name'', JString (toValidUTF8 (RepoName m))),
         (''repo_owner'', JString (toValidUTF8 (RepoOwner m))),
         (''service'', JString (toValidUTF8 (Service m))),
         (''wiki'', JBool (Wiki m)) ]))"

section \<open>The outside world of one iteration\<close>

text \<open>
  What \<^verbatim>\<open>migrateRepo\<close> sees of the outside during one call: the bytes standard
  input holds, whether \<^verbatim>\<open>http.NewRequest\<close> accepts a method and URL (it fails
  on a URL it cannot parse), and what \<^verbatim>\<open>Client.Do\<close> answers to a request. A
  response carries its status code and its body, an \<^verbatim>\<open>io.ReadCloser\<close>: what
  \<^verbatim>\<open>io.ReadAll\<close> gives and what \<^verbatim>\<open>Close\<close> gives.
\<close>

record request =
  Method :: string
  URL :: string
  Header :: "(string \<times> string) list"
  Payload :: "document option"

record ReadCloser =
  ReadAll :: "error + document"
  Close :: "error option"

record response =
  StatusCode :: int
  Body :: ReadCloser

record world =
  stdin :: string
  NewRequest :: "string \<Rightarrow> string \<Rightarrow> error option"
  Do :: "request \<Rightarrow> error + response"

text \<open>
  What the call does to the outside, in order: text printed to standard output, lines
  written by \<^verbatim>\<open>log\<close> (a message or a printed error), and HTTP requests sent.
\<close>

datatype event =
    FmtPrint string
  | LogPrintln string
  | LogError error
  | ClientDo request

datatype status = Returned | Panicked string | Running

record result =
  outcome :: status
  events :: "event list"
  optionsAfter :: programOptions

section \<open>\<^verbatim>\<open>migrateRepo\<close>\<close>

text \<open>
  The deferred function of lines 91--97 and 151--157: close the body and log the error
  of the close, if any.
\<close>

definition deferredClose :: "ReadCloser \<Rightarrow> event list" where
  "deferredClose body = (case Close body of None \<Rightarrow> [] | Some err \<Rightarrow> [LogError err])"

text \<open>Lines 171--191: the outcome reported for a decoded Gitea response.\<close>

definition classify :: "int \<Rightarrow> GiteaRepo \<Rightarrow> event list" where
  "classify statusCode giteaRepo =
     (if statusCode = 403 then [LogPrintln ''Forbidden'']
      else if statusCode = 409 then [LogPrintln ''Repository with this name already exists'']
      else if statusCode = 422 then [LogPrintln ''Wrong input?'']
      else if Id giteaRepo = 0 then [LogPrintln ''Repository creation failed'']
      else [LogPrintln (''Repository created: '' @ HtmlUrl giteaRepo)])"

text \<open>Lines 113--127: the migration request built from the descriptor.\<close>

definition migrateOptions :: "programOptions \<Rightarrow> GitHubRepo \<Rightarrow> MigrateRepoOptions" where
  "migrateOptions options repo =
     (let authToken = (if GitHubRepo.Private repo then GitHubToken options else [])
      in \<lparr> AuthToken = authToken,
           CloneAddr = CloneURL repo,
           MigrateRepoOptions.Description = GitHubRepo.Description repo,
           Mirror = True,
           MigrateRepoOptions.Private = GitHubRepo.Private repo,
           RepoName = Name repo,
           RepoOwner = GiteaOwner options,
           Service = ''github'',
           Wiki = True \<rparr>)"

definition giteaRequest :: "programOptions \<Rightarrow> document \<Rightarrow> request" where
  "giteaRequest options jsonData =
     \<lparr> Method = ''POST'',
       URL = ''https://'' @ GiteaInstance options @ ''/api/v1/repos/migrate'',
       Header = [(''Content-Type'', ''application/json''),
                 (''Authorization'', ''Bearer '' @ GiteaToken options)],
       Payload = Some jsonData \<rparr>"

text \<open>
  Lines 146--191: what is done with the answer to the POST. A transport failure, a failed
  read of the body and a failed decode each log the error and return; only a decoded body
  reaches the checks of the status code. The close of the body, deferred at line 151, runs
  when the function returns.
\<close>

definition giteaResponse :: "error + response \<Rightarrow> event list" where
  "giteaResponse answer =
     (case answer of
        Inl err \<Rightarrow> [LogError err]
      | Inr resp \<Rightarrow>
          (case ReadAll (Body resp) of
             Inl err \<Rightarrow> [LogError err]
           | Inr giteaBody \<Rightarrow>
               (case UnmarshalGiteaRepo giteaBody of
                  Inl err \<Rightarrow> [LogError err]
                | Inr giteaRepo \<Rightarrow> classify (StatusCode resp) giteaRepo))
          @ deferredClose (Body resp))"

text \<open>Lines 113--145: the request is built, serialized and sent.\<close>

definition createGiteaRepository :: "programOptions \<Rightarrow> world \<Rightarrow> GitHubRepo \<Rightarrow> event list" where
  "createGiteaRepository options w repo =
     (case Marshal (migrateOptions options repo) of
        Inl err \<Rightarrow> [LogError err]
      | Inr jsonData \<Rightarrow>
          let req = giteaRequest options jsonData in
          (case NewRequest w (Method req) (URL req) of
             Some err \<Rightarrow> [LogError err]
           | None \<Rightarrow>
               [LogPrintln ''Creating Gitea repository...'', ClientDo req] @
               giteaResponse (Do w req)))"

definition githubRequest :: "programOptions \<Rightarrow> string \<Rightarrow> string \<Rightarrow> request" where
  "githubRequest options username repoName =
     \<lparr> Method = ''GET'',
       URL = ''https://api.github.com/repos/'' @ username @ ''/'' @ repoName,
       Header = [(''Authorization'', ''Bearer '' @ GitHubToken options),
                 (''Accept'', ''application/vnd.github+json''),
                 (''X-GitHub-Api-Version'', ''2022-11-28'')],
       Payload = None \<rparr>"

text \<open>
  Lines 86--111: what is done with the answer to the GET. The status code of the response
  is not read. After a decoded body the function goes on to the migration; the close of
  the GitHub body, deferred at line 91, runs after the one of the Gitea body (deferred
  calls run last in, first out).
\<close>

definition githubResponse :: "programOptions \<Rightarrow> world \<Rightarrow> error + response \<Rightarrow> event list" where
  "githubResponse options w answer =
     (case answer of
        Inl err \<Rightarrow> [LogError err]
      | Inr resp \<Rightarrow>
          (case ReadAll (Body resp) of
             Inl err \<Rightarrow> [LogError err]
           | Inr giteaBody \<Rightarrow>
               (case UnmarshalGitHubRepo giteaBody of
                  Inl err \<Rightarrow> [LogError err]
                | Inr repo \<Rightarrow>
                    LogPrintln (''Got repo: '' @ Name repo) #
                    createGiteaRepository options w repo))
          @ deferredClose (Body resp))"

text \<open>Lines 74--85: the GET request for the parsed owner and name is built and sent.\<close>

definition getGitHubRepo :: "programOptions \<Rightarrow> world \<Rightarrow> string \<Rightarrow> string \<Rightarrow> event list" where
  "getGitHubRepo options w username repoName =
     (let req = githubRequest options username repoName in
      case NewRequest w (Method req) (URL req) of
        Some err \<Rightarrow> [LogError err]
      | None \<Rightarrow>
          [LogPrintln ''Getting GitHub repo info...'', ClientDo req] @
          githubResponse options w (Do w req))"

text \<open>
  Lines 59--72: the prompt, the line read (its error dropped), the last byte cut off, the
  pattern applied. The function takes the options by pointer; the result carries them as
  they are when it returns.
\<close>

definition migrateRepo :: "programOptions \<Rightarrow> world \<Rightarrow> result" where
  "migrateRepo options w =
     (let prompt = FmtPrint (CHR ''\<newline>'' # ''Enter the GitHub URL: '');
          (url, _) = ReadString (CHR ''\<newline>'') (stdin w)
      in case sliceTo url (int (length url) - 1) of
           None \<Rightarrow>
             \<lparr> outcome = Panicked ''slice bounds out of range [:-1]'',
               events = [prompt], optionsAfter = options \<rparr>
         | Some url \<Rightarrow>
             let match = FindStringSubmatch re url in
             if length match \<noteq> 3 then
               \<lparr> outcome = Returned,
                 events = [prompt, LogPrintln ''Invalid GitHub URL''], optionsAfter = options \<rparr>
             else
               let username = match ! 1; repoName = match ! 2 in
               \<lparr> outcome = Returned,
                 events = prompt # getGitHubRepo options w username repoName,
                 optionsAfter = options \<rparr>)"

section \<open>\<^verbatim>\<open>main\<close>\<close>

text \<open>
  The loop of \<^verbatim>\<open>main\<close> has no exit: it calls \<^verbatim>\<open>migrateRepo\<close> again
  whenever the call returns, and a panic ends the process. The list holds the world each
  iteration meets; when the list is used up the process is still running.
\<close>

fun loop :: "programOptions \<Rightarrow> world list \<Rightarrow> result" where
  "loop options [] = \<lparr> outcome = Running, events = [], optionsAfter = options \<rparr>"
| "loop options (w # ws) =
     (let r = migrateRepo options w in
      case outcome r of
        Returned \<Rightarrow> (let r' = loop (optionsAfter r) ws in r'\<lparr> events := events r @ events r' \<rparr>)
      | _ \<Rightarrow> r)"

definition main :: "(string \<rightharpoonup> string) \<Rightarrow> world list \<Rightarrow> result" where
  "main env ws =
     (let options = loadOptions env;
          banner = [ FmtPrint (''- Welcome to teamigrate -'' @ [CHR ''\<newline>'']),
                     FmtPrint (''GITEA_INSTANCE: '' @ GiteaInstance options @ [CHR ''\<newline>'']),
                     FmtPrint (''GITEA_OWNER: '' @ GiteaOwner options @ [CHR ''\<newline>'']) ];
          r = loop options ws
      in r\<lparr> events := banner @ events r \<rparr>)"

section \<open>Vocabulary of the specification\<close>

text \<open>
  The specification speaks of a line that contains a substring matched by
  \<^verbatim>\<open>github.com/<owner>/<repo>\<close>, owner and repo being one or more characters
  other than a slash. This is that sentence, with the text before and after the substring
  named; it is written from the specification, to compare the parser with.
\<close>

abbreviation (input) notSlash :: "char \<Rightarrow> bool" where
  "notSlash \<equiv> (\<lambda>x. x \<noteq> CHR ''/'')"

definition occursAt :: "string \<Rightarrow> string \<Rightarrow> string \<Rightarrow> string \<Rightarrow> string \<Rightarrow> bool" where
  "occursAt line before owner repo after \<longleftrightarrow>
     line = before @ ''github.com/'' @ owner @ ''/'' @ repo @ after \<and>
     owner \<noteq> [] \<and> repo \<noteq> [] \<and> CHR ''/'' \<notin> set owner \<and> CHR ''/'' \<notin> set repo"

text \<open>
  A field is absent from a JSON object when no member's key names it. An object can be
  decoded into a \<^verbatim>\<open>GitHubRepo\<close> when each member that names a field holds a
  value of the field's type or \<^verbatim>\<open>null\<close>.
\<close>

definition absent :: "string \<Rightarrow> (string \<times> json) list \<Rightarrow> bool" where
  "absent name members = list_all (\<lambda>(key, v). \<not> equalFold key name) members"

definition isStringOrNull :: "json \<Rightarrow> bool" where
  "isStringOrNull v = (case v of JString _ \<Rightarrow> True | JNull \<Rightarrow> True | _ \<Rightarrow> False)"

definition isBoolOrNull :: "json \<Rightarrow> bool" where
  "isBoolOrNull v = (case v of JBool _ \<Rightarrow> True | JNull \<Rightarrow> True | _ \<Rightarrow> False)"

definition fitsGitHubRepo :: "(string \<times> json) list \<Rightarrow> bool" where
  "fitsGitHubRepo members =
     list_all
       (\<lambda>(key, v).
          if equalFold key ''clone_url'' \<or> equalFold key ''description'' \<or> equalFold key ''name''
          then isStringOrNull v
          else if equalFold key ''private'' then isBoolOrNull v
          else True)
       members"

section \<open>Worlds for the examples\<close>

text \<open>
  A world in which \<^verbatim>\<open>http.NewRequest\<close> accepts every URL, every GET is
  answered by one response and every other request by another, and standard input holds
  the given bytes. The examples below run the program in such worlds.
\<close>

definition answering :: "string \<Rightarrow> error + response \<Rightarrow> error + response \<Rightarrow> world" where
  "answering input github gitea =
     \<lparr> stdin = input,
       NewRequest = (\<lambda>method url. None),
       Do = (\<lambda>req. if Method req = ''GET'' then github else gitea) \<rparr>"

definition respond :: "int \<Rightarrow> document \<Rightarrow> error + response" where
  "respond code data = Inr \<lparr> StatusCode = code, Body = \<lparr> ReadAll = Inr data, Close = None \<rparr> \<rparr>"

definition exampleOptions :: programOptions where
  "exampleOptions =
     \<lparr> GiteaInstance = ''gitea.local'', GitHubToken = ''ghp_secret'',
       GiteaToken = ''gitea_secret'', GiteaOwner = ''acme'' \<rparr>"

section \<open>The parser finds the leftmost match and takes the longest groups\<close>

lemma firstSome_all_None: "(\<And>x. x \<in> set xs \<Longrightarrow> f x = None) \<Longrightarrow> firstSome f xs = None"
  by (induction xs) auto

lemma rev_upt_Suc: "0 < k \<Longrightarrow> rev [Suc 0..<Suc k] = k # rev [Suc 0..<k]"
  by (cases k) auto

lemma matchHere_Lits:
  "matchHere (map Lit lit @ p) s =
     (if take (length lit) s = lit
      then map_option (\<lambda>(n, caps). (length lit + n, caps)) (matchHere p (drop (length lit) s))
      else None)"
proof (induction lit arbitrary: s)
  case Nil
  show ?case by (simp add: option.map_ident case_prod_unfold map_option.identity)
next
  case (Cons c lit)
  show ?case
  proof (cases s)
    case Nil
    then show ?thesis by simp
  next
    case (Cons x t)
    then show ?thesis
      by (simp add: Cons.IH option.map_comp comp_def case_prod_unfold)
  qed
qed

lemma matchHere_last_group:
  "matchHere [GroupPlusNot c] s =
     (let k = length (takeWhile (\<lambda>x. x \<noteq> c) s)
      in if k = 0 then None else Some (k, [take k s]))"
proof (cases "length (takeWhile (\<lambda>x. x \<noteq> c) s) = 0")
  case True
  then show ?thesis by (simp add: Let_def)
next
  case False
  then show ?thesis by (simp add: Let_def rev_upt_Suc del: upt_Suc)
qed

lemma matchHere_Lit_mismatch:
  "n < length (takeWhile (\<lambda>x. x \<noteq> c) s) \<Longrightarrow> matchHere (Lit c # p) (drop n s) = None"
proof -
  assume n: "n < length (takeWhile (\<lambda>x. x \<noteq> c) s)"
  have len: "length (takeWhile (\<lambda>x. x \<noteq> c) s) \<le> length s" by (rule length_takeWhile_le)
  from n have "takeWhile (\<lambda>x. x \<noteq> c) s ! n \<noteq> c"
    using nth_mem set_takeWhileD by fastforce
  with n have "s ! n \<noteq> c" by (simp add: takeWhile_nth)
  moreover from n len have "drop n s = s ! n # drop (Suc n) s"
    by (simp add: Cons_nth_drop_Suc)
  ultimately show ?thesis by simp
qed

lemma matchHere_group_then_Lit:
  "matchHere (GroupPlusNot c # Lit c # p) s =
     (let k = length (takeWhile (\<lambda>x. x \<noteq> c) s)
      in if k = 0 then None
         else map_option (\<lambda>(m, caps). (k + m, take k s # caps)) (matchHere (Lit c # p) (drop k s)))"
proof -
  define k where "k = length (takeWhile (\<lambda>x. x \<noteq> c) s)"
  define f where "f = (\<lambda>n. map_option (\<lambda>(m, caps). (n + m, take n s # caps)) (matchHere (Lit c # p) (drop n s)))"
  have unfold: "matchHere (GroupPlusNot c # Lit c # p) s = firstSome f (rev [Suc 0..<Suc k])"
    unfolding f_def k_def by (simp only: matchHere.simps Let_def One_nat_def)
  have goal: "matchHere (GroupPlusNot c # Lit c # p) s = (if k = 0 then None else f k)"
  proof (cases "k = 0")
    case True
    then show ?thesis unfolding unfold by simp
  next
    case False
    have rest: "firstSome f (rev [Suc 0..<k]) = None"
      by (rule firstSome_all_None) (simp add: f_def k_def matchHere_Lit_mismatch del: matchHere.simps)
    from False have "firstSome f (rev [Suc 0..<Suc k]) = firstSome f (k # rev [Suc 0..<k])"
      by (simp only: rev_upt_Suc)
    also have "\<dots> = f k" using rest by (cases "f k") simp_all
    finally show ?thesis using False unfolding unfold by simp
  qed
  show ?thesis unfolding goal f_def k_def Let_def ..
qed


lemma matchHere_re:
  "matchHere re s =
     (if take 11 s = ''github.com/'' then
        (let r = drop 11 s;
             owner = takeWhile notSlash r;
             rest = drop (length owner) r;
             repo = takeWhile notSlash (drop 1 rest)
         in if owner = [] \<or> rest = [] \<or> repo = [] then None
            else Some (12 + length owner + length repo, [owner, repo]))
      else None)"
proof -
  define r where "r = drop 11 s"
  define owner where "owner = takeWhile notSlash r"
  define rest where "rest = drop (length owner) r"
  define repo where "repo = takeWhile notSlash (drop 1 rest)"
  have rest_dw: "rest = dropWhile notSlash r"
    unfolding rest_def owner_def by (simp add: dropWhile_eq_drop)
  have hd_rest: "rest \<noteq> [] \<Longrightarrow> hd rest = CHR ''/''"
    unfolding rest_dw using hd_dropWhile [of notSlash r] by simp
  have take_owner: "take (length owner) r = owner"
    unfolding owner_def by (simp add: takeWhile_eq_take [symmetric])
  have take_repo: "take (length repo) (drop 1 rest) = repo"
    unfolding repo_def by (simp add: takeWhile_eq_take [symmetric])
  have slash: "matchHere [Lit CHR ''/'', GroupPlusNot CHR ''/''] rest =
      (if rest = [] \<or> repo = [] then None else Some (Suc (length repo), [repo]))"
  proof (cases rest)
    case Nil
    then show ?thesis by simp
  next
    case (Cons x t)
    with hd_rest have "x = CHR ''/''" by simp
    with Cons show ?thesis
      using take_repo by (simp add: matchHere_last_group repo_def Let_def del: matchHere.simps(3))
  qed
  have tail: "matchHere [GroupPlusNot CHR ''/'', Lit CHR ''/'', GroupPlusNot CHR ''/''] r =
      (if owner = [] \<or> rest = [] \<or> repo = [] then None
       else Some (Suc (length owner + length repo), [owner, repo]))"
  proof -
    have "matchHere [GroupPlusNot CHR ''/'', Lit CHR ''/'', GroupPlusNot CHR ''/''] r =
        (if length owner = 0 then None
         else map_option (\<lambda>(m, caps). (length owner + m, take (length owner) r # caps))
                (matchHere [Lit CHR ''/'', GroupPlusNot CHR ''/''] rest))"
      unfolding matchHere_group_then_Lit Let_def owner_def rest_def ..
    then show ?thesis unfolding slash take_owner by auto
  qed
  have len: "length ''github.com/'' = 11" by simp
  have "matchHere re s =
      matchHere (map Lit ''github.com/'' @ [GroupPlusNot CHR ''/'', Lit CHR ''/'', GroupPlusNot CHR ''/'']) s"
    by (simp only: re_def)
  also have "\<dots> =
      (if take 11 s = ''github.com/'' then
         map_option (\<lambda>(n, caps). (11 + n, caps))
           (matchHere [GroupPlusNot CHR ''/'', Lit CHR ''/'', GroupPlusNot CHR ''/''] r)
       else None)"
    unfolding r_def by (simp only: matchHere_Lits len)
  finally show ?thesis
    unfolding tail Let_def r_def [symmetric] owner_def [symmetric]
      rest_def [symmetric] repo_def [symmetric]
    by simp
qed

lemma FindStringSubmatch_leftmost:
  "matchHere p (drop i s) = Some (n, caps) \<Longrightarrow> i \<le> length s \<Longrightarrow>
   (\<And>j. j < i \<Longrightarrow> matchHere p (drop j s) = None) \<Longrightarrow>
   FindStringSubmatch p s = take n (drop i s) # caps"
proof (induction s arbitrary: i)
  case Nil
  then show ?case by simp
next
  case (Cons x t)
  show ?case
  proof (cases i)
    case 0
    with Cons.prems(1) show ?thesis by simp
  next
    case (Suc i')
    with Cons.prems(3) [of 0] have none: "matchHere p (x # t) = None" by simp
    have "FindStringSubmatch p t = take n (drop i' t) # caps"
    proof (rule Cons.IH)
      show "matchHere p (drop i' t) = Some (n, caps)" using Cons.prems(1) Suc by simp
      show "i' \<le> length t" using Cons.prems(2) Suc by simp
      show "matchHere p (drop j t) = None" if "j < i'" for j
        using Cons.prems(3) [of "Suc j"] that Suc by simp
    qed
    with none Suc show ?thesis by simp
  qed
qed

lemma FindStringSubmatch_Nil_iff:
  "FindStringSubmatch p s = [] \<longleftrightarrow> (\<forall>j\<le>length s. matchHere p (drop j s) = None)"
proof (induction s)
  case Nil
  show ?case by (auto split: option.splits)
next
  case (Cons x t)
  have "(\<forall>j\<le>length (x # t). matchHere p (drop j (x # t)) = None) \<longleftrightarrow>
        matchHere p (x # t) = None \<and> (\<forall>j\<le>length t. matchHere p (drop j t) = None)"
    (is "?L \<longleftrightarrow> ?R")
  proof
    assume l: ?L
    have "matchHere p (drop j t) = None" if "j \<le> length t" for j
      using l [rule_format, of "Suc j"] that by simp
    moreover have "matchHere p (x # t) = None" using l [rule_format, of 0] by simp
    ultimately show ?R by blast
  next
    assume r: ?R
    show ?L
    proof (intro allI impI)
      fix j assume "j \<le> length (x # t)"
      then show "matchHere p (drop j (x # t)) = None"
        using r by (cases j) auto
    qed
  qed
  then show ?case using Cons.IH by (auto split: option.splits)
qed


lemma occursAt_matchHere:
  assumes "occursAt line before owner repo after"
  shows "matchHere re (drop (length before) line) =
           Some (12 + length owner + length (repo @ takeWhile notSlash after),
                 [owner, repo @ takeWhile notSlash after])"
proof -
  define t where "t = ''github.com/'' @ owner @ ''/'' @ repo @ after"
  from assms have line: "line = before @ t" and owner: "owner \<noteq> []" "CHR ''/'' \<notin> set owner"
    and repo: "repo \<noteq> []" "CHR ''/'' \<notin> set repo"
    by (simp_all add: occursAt_def t_def)
  have r: "drop 11 t = owner @ CHR ''/'' # repo @ after" by (simp add: t_def)
  have tw: "takeWhile notSlash (owner @ CHR ''/'' # repo @ after) = owner"
    using owner(2) by (auto simp add: takeWhile_tail)
  have tw2: "takeWhile notSlash (repo @ after) = repo @ takeWhile notSlash after"
    using repo(2) by (intro takeWhile_append2) auto
  have "matchHere re t =
          Some (12 + length owner + length (repo @ takeWhile notSlash after),
                [owner, repo @ takeWhile notSlash after])"
    unfolding matchHere_re r Let_def tw
    using owner(1) repo(1) by (simp add: t_def tw2)
  then show ?thesis by (simp add: line)
qed

lemma matchHere_occursAt:
  assumes "matchHere re (drop j line) = Some (n, caps)" and "j \<le> length line"
  shows "\<exists>owner repo after. occursAt line (take j line) owner repo after \<and> caps = [owner, repo]"
proof -
  define t where "t = drop j line"
  define r where "r = drop 11 t"
  define owner where "owner = takeWhile notSlash r"
  define rest where "rest = drop (length owner) r"
  define repo where "repo = takeWhile notSlash (drop 1 rest)"
  from assms(1) have m: "take 11 t = ''github.com/''" "owner \<noteq> []" "rest \<noteq> []" "repo \<noteq> []"
    "caps = [owner, repo]"
    unfolding matchHere_re t_def [symmetric] Let_def r_def [symmetric] owner_def [symmetric]
      rest_def [symmetric] repo_def [symmetric]
    by (auto split: if_splits)
  have rest_dw: "rest = dropWhile notSlash r"
    unfolding rest_def owner_def by (simp add: dropWhile_eq_drop)
  with m(3) have "hd rest = CHR ''/''" using hd_dropWhile [of notSlash r] by simp
  with m(3) obtain rs where rest: "rest = CHR ''/'' # rs" by (cases rest) auto
  have repo: "repo = takeWhile notSlash rs" by (simp add: repo_def rest)
  have t: "t = take 11 t @ r" by (simp add: r_def)
  have r: "r = owner @ rest" unfolding rest_dw owner_def by simp
  have rs: "rs = repo @ dropWhile notSlash rs" unfolding repo by simp
  have "t = ''github.com/'' @ owner @ ''/'' @ repo @ dropWhile notSlash rs"
    using t r rest rs m(1) by (metis append_Cons append_Nil)
  moreover have "line = take j line @ t" by (simp add: t_def)
  moreover have "CHR ''/'' \<notin> set owner" unfolding owner_def by (auto dest: set_takeWhileD)
  moreover have "CHR ''/'' \<notin> set repo" unfolding repo_def by (auto dest: set_takeWhileD)
  ultimately have "occursAt line (take j line) owner repo (dropWhile notSlash rs)"
    using m(2,4) by (simp add: occursAt_def)
  with m(5) show ?thesis by blast
qed

text \<open>
  C3, as amended. When the line contains \<^verbatim>\<open>github.com/<owner>/<repo>\<close> and no
  such substring starts further left, the parser returns exactly that owner, and as the
  repository name the repo followed by everything up to the next slash or the end of the
  line. What comes before the match (text, a scheme) does not matter, and a trailing path
  segment, which starts with a slash, is not captured: then the name is exactly the repo.
\<close>

theorem C3_parser_leftmost_greedy:
  assumes occ: "occursAt line before owner repo after"
    and leftmost: "\<And>b u r a. occursAt line b u r a \<Longrightarrow> length before \<le> length b"
  shows "FindStringSubmatch re line =
           [''github.com/'' @ owner @ ''/'' @ repo @ takeWhile notSlash after,
            owner, repo @ takeWhile notSlash after]"
proof -
  define n where "n = 12 + length owner + length (repo @ takeWhile notSlash after)"
  have line: "line = before @ ''github.com/'' @ owner @ ''/'' @ repo @ after"
    using occ by (simp add: occursAt_def)
  have here: "matchHere re (drop (length before) line) =
      Some (n, [owner, repo @ takeWhile notSlash after])"
    unfolding n_def by (rule occursAt_matchHere [OF occ])
  have earlier: "matchHere re (drop j line) = None" if "j < length before" for j
  proof (rule ccontr)
    assume "matchHere re (drop j line) \<noteq> None"
    then obtain m caps where "matchHere re (drop j line) = Some (m, caps)" by auto
    moreover have "j \<le> length line" using that line by simp
    ultimately obtain u r a where "occursAt line (take j line) u r a"
      using matchHere_occursAt by blast
    from leftmost [OF this] that line show False by simp
  qed
  have "FindStringSubmatch re line =
      take n (drop (length before) line) # [owner, repo @ takeWhile notSlash after]"
    by (rule FindStringSubmatch_leftmost [OF here _ earlier]) (simp_all add: line)
  moreover have "take n (drop (length before) line) =
      ''github.com/'' @ owner @ ''/'' @ repo @ takeWhile notSlash after"
  proof -
    define whole where "whole = ''github.com/'' @ owner @ ''/'' @ repo @ takeWhile notSlash after"
    have "drop (length before) line = whole @ dropWhile notSlash after"
      by (simp add: line whole_def)
    moreover have "n = length whole" by (simp add: n_def whole_def)
    ultimately show ?thesis unfolding whole_def [symmetric] by simp
  qed
  ultimately show ?thesis by simp
qed


text \<open>
  C3 as stated fails: in \<^verbatim>\<open>github.com/acme/widgets now\<close> the substring
  \<^verbatim>\<open>github.com/acme/widgets\<close> is matched by the pattern with repo
  \<^verbatim>\<open>widgets\<close>, and the parser returns the repository name
  \<^verbatim>\<open>widgets now\<close>: the text after the URL is captured too.
\<close>

theorem C3_counterexample:
  "occursAt ''github.com/acme/widgets now'' [] ''acme'' ''widgets'' '' now'' \<and>
   FindStringSubmatch re ''github.com/acme/widgets now'' =
     [''github.com/acme/widgets now'', ''acme'', ''widgets now''] \<and>
   FindStringSubmatch re ''github.com/acme/widgets now'' ! 2 \<noteq> ''widgets''"
  by (simp add: occursAt_def matchHere_re)

lemma no_match_before_12:
  "list_all (\<lambda>j. matchHere re (drop j ''see https://github.com/acme/widgets/issues/3'') = None) [0..<12]"
  by (simp add: matchHere_re upt_rec [of _ "numeral _"] upt_rec [of 0])

theorem C3_parser_leftmost_greedy_witness:
  "occursAt ''see https://github.com/acme/widgets/issues/3''
     ''see https://'' ''acme'' ''widgets'' ''/issues/3'' \<and>
   FindStringSubmatch re ''see https://github.com/acme/widgets/issues/3'' =
     [''github.com/acme/widgets'', ''acme'', ''widgets'']"
proof -
  let ?line = "''see https://github.com/acme/widgets/issues/3''"
  have occ: "occursAt ?line ''see https://'' ''acme'' ''widgets'' ''/issues/3''"
    by (simp add: occursAt_def)
  have leftmost: "length ''see https://'' \<le> length b" if "occursAt ?line b u r a" for b u r a
  proof (rule ccontr)
    assume "\<not> length ''see https://'' \<le> length b"
    then have "length b \<in> set [0..<12]" by simp
    with no_match_before_12 have "matchHere re (drop (length b) ?line) = None"
      unfolding list_all_iff by blast
    with occursAt_matchHere [OF that] show False by simp
  qed
  from C3_parser_leftmost_greedy [OF occ leftmost] occ show ?thesis by simp
qed


text \<open>
  The parser finds no match exactly in the lines that contain no such substring.
\<close>

lemma no_match_iff_no_occurrence:
  "FindStringSubmatch re line = [] \<longleftrightarrow> \<not> (\<exists>before owner repo after. occursAt line before owner repo after)"
proof
  assume none: "FindStringSubmatch re line = []"
  show "\<not> (\<exists>before owner repo after. occursAt line before owner repo after)"
  proof
    assume "\<exists>before owner repo after. occursAt line before owner repo after"
    then obtain before owner repo after where occ: "occursAt line before owner repo after"
      by blast
    then have "length before \<le> length line" by (simp add: occursAt_def)
    with none have "matchHere re (drop (length before) line) = None"
      using FindStringSubmatch_Nil_iff [of re line] by blast
    with occursAt_matchHere [OF occ] show False by simp
  qed
next
  assume no: "\<not> (\<exists>before owner repo after. occursAt line before owner repo after)"
  have "matchHere re (drop j line) = None" if "j \<le> length line" for j
  proof (rule ccontr)
    assume "matchHere re (drop j line) \<noteq> None"
    then obtain n caps where "matchHere re (drop j line) = Some (n, caps)" by auto
    from matchHere_occursAt [OF this that] no show False by blast
  qed
  then show "FindStringSubmatch re line = []"
    using FindStringSubmatch_Nil_iff [of re line] by blast
qed

section \<open>One call of \<^verbatim>\<open>migrateRepo\<close>\<close>

lemma FindStringSubmatch_cases:
  "FindStringSubmatch p s = [] \<or>
   (\<exists>j n caps. j \<le> length s \<and> matchHere p (drop j s) = Some (n, caps) \<and>
      FindStringSubmatch p s = take n (drop j s) # caps)"
proof (induction s)
  case Nil
  show ?case by (cases "matchHere p []") auto
next
  case (Cons x t)
  show ?case
  proof (cases "matchHere p (x # t)")
    case None
    from Cons.IH show ?thesis
    proof
      assume "FindStringSubmatch p t = []"
      with None show ?thesis by simp
    next
      assume "\<exists>j n caps. j \<le> length t \<and> matchHere p (drop j t) = Some (n, caps) \<and>
        FindStringSubmatch p t = take n (drop j t) # caps"
      then obtain j n caps where "j \<le> length t" "matchHere p (drop j t) = Some (n, caps)"
        "FindStringSubmatch p t = take n (drop j t) # caps" by blast
      with None have "Suc j \<le> length (x # t) \<and> matchHere p (drop (Suc j) (x # t)) = Some (n, caps) \<and>
        FindStringSubmatch p (x # t) = take n (drop (Suc j) (x # t)) # caps" by simp
      then show ?thesis by blast
    qed
  next
    case (Some a)
    obtain n caps where "a = (n, caps)" by (cases a)
    with Some have "0 \<le> length (x # t) \<and> matchHere p (drop 0 (x # t)) = Some (n, caps) \<and>
        FindStringSubmatch p (x # t) = take n (drop 0 (x # t)) # caps" by simp
    then show ?thesis by blast
  qed
qed

lemma matchHere_re_two_groups: "matchHere re t = Some (n, caps) \<Longrightarrow> length caps = 2"
  by (auto simp: matchHere_re Let_def split: if_splits)

lemma FindStringSubmatch_re_length:
  "length (FindStringSubmatch re s) = (if FindStringSubmatch re s = [] then 0 else 3)"
  using FindStringSubmatch_cases [of re s] by (auto dest: matchHere_re_two_groups)

lemma ReadString_Nil: "fst (ReadString d input) = [] \<longleftrightarrow> input = []"
  by (auto simp: ReadString_def Let_def)

lemma sliceTo_butlast: "line \<noteq> [] \<Longrightarrow> sliceTo line (int (length line) - 1) = Some (butlast line)"
  by (cases line rule: rev_cases) (auto simp: sliceTo_def butlast_conv_take nat_diff_distrib')

lemma migrateRepo_line:
  assumes "fst (ReadString (CHR ''\<newline>'') (stdin w)) = line" and "line \<noteq> []"
  shows "migrateRepo options w =
    (let match = FindStringSubmatch re (butlast line) in
     if length match \<noteq> 3 then
       \<lparr> outcome = Returned,
         events = [FmtPrint (CHR ''\<newline>'' # ''Enter the GitHub URL: ''), LogPrintln ''Invalid GitHub URL''],
         optionsAfter = options \<rparr>
     else
       \<lparr> outcome = Returned,
         events = FmtPrint (CHR ''\<newline>'' # ''Enter the GitHub URL: '') #
                  getGitHubRepo options w (match ! 1) (match ! 2),
         optionsAfter = options \<rparr>)"
proof -
  obtain err where "ReadString (CHR ''\<newline>'') (stdin w) = (line, err)"
    using assms(1) by (cases "ReadString (CHR ''\<newline>'') (stdin w)") simp
  then show ?thesis
    unfolding migrateRepo_def by (simp add: sliceTo_butlast [OF assms(2)] Let_def)
qed

text \<open>
  C6. When a line was read and the parser finds no match in it (the line without its last
  byte), the call prints the prompt, logs \<^verbatim>\<open>Invalid GitHub URL\<close> and
  returns: nothing else happens, so neither the GET to GitHub nor the POST to Gitea is
  sent.
\<close>

theorem C6_no_match:
  assumes "fst (ReadString (CHR ''\<newline>'') (stdin w)) = line" and "line \<noteq> []"
    and "FindStringSubmatch re (butlast line) = []"
  shows "migrateRepo options w =
           \<lparr> outcome = Returned,
             events = [FmtPrint (CHR ''\<newline>'' # ''Enter the GitHub URL: ''),
                       LogPrintln ''Invalid GitHub URL''],
             optionsAfter = options \<rparr> \<and>
         (\<forall>req. ClientDo req \<notin> set (events (migrateRepo options w)))"
  using assms(3) by (simp add: migrateRepo_line [OF assms(1,2)])

theorem C6_no_match_witness:
  "fst (ReadString (CHR ''\<newline>'')
      (stdin (answering ''not a url\<newline>'' (respond 200 (Wellformed JNull)) (respond 201 (Wellformed JNull))))) =
     ''not a url\<newline>'' \<and>
   FindStringSubmatch re ''not a url'' = [] \<and>
   migrateRepo exampleOptions
     (answering ''not a url\<newline>'' (respond 200 (Wellformed JNull)) (respond 201 (Wellformed JNull))) =
     \<lparr> outcome = Returned,
       events = [FmtPrint (CHR ''\<newline>'' # ''Enter the GitHub URL: ''),
                 LogPrintln ''Invalid GitHub URL''],
       optionsAfter = exampleOptions \<rparr>"
proof -
  let ?w = "answering ''not a url\<newline>'' (respond 200 (Wellformed JNull)) (respond 201 (Wellformed JNull))"
  have line: "fst (ReadString (CHR ''\<newline>'') (stdin ?w)) = ''not a url\<newline>''"
    by (simp add: answering_def ReadString_def)
  have ne: "''not a url\<newline>'' \<noteq> []" by simp
  have none: "FindStringSubmatch re (butlast ''not a url\<newline>'') = []"
    by (simp add: matchHere_re)
  from C6_no_match [OF line ne none, of exampleOptions] line none show ?thesis by simp
qed

text \<open>
  C8. An empty line is treated as the claim says, but the end of the input is not: the
  read returns the empty string, the slice \<^verbatim>\<open>url[:len(url)-1]\<close> is
  \<^verbatim>\<open>url[:-1]\<close>, and the call panics before anything is logged. The panic
  ends the process, so the loop does not go on.
\<close>

theorem C8_eof_panics:
  "migrateRepo options (w\<lparr>stdin := []\<rparr>) =
     \<lparr> outcome = Panicked ''slice bounds out of range [:-1]'',
       events = [FmtPrint (CHR ''\<newline>'' # ''Enter the GitHub URL: '')],
       optionsAfter = options \<rparr> \<and>
   loop options (w\<lparr>stdin := []\<rparr> # ws) = migrateRepo options (w\<lparr>stdin := []\<rparr>)"
  by (simp add: migrateRepo_def ReadString_def sliceTo_def)

lemma empty_line_invalid:
  "migrateRepo options (w\<lparr>stdin := CHR ''\<newline>'' # rest\<rparr>) =
     \<lparr> outcome = Returned,
       events = [FmtPrint (CHR ''\<newline>'' # ''Enter the GitHub URL: ''), LogPrintln ''Invalid GitHub URL''],
       optionsAfter = options \<rparr>"
  by (simp add: migrateRepo_def ReadString_def sliceTo_def matchHere_re)

lemma migrateRepo_options: "optionsAfter (migrateRepo options w) = options"
  by (simp add: migrateRepo_def Let_def split: prod.splits option.splits)

lemma loop_options: "optionsAfter (loop options ws) = options"
  by (induction ws arbitrary: options) (simp_all add: migrateRepo_options Let_def split: status.splits)

text \<open>
  C9. The options are loaded once, by \<^verbatim>\<open>main\<close> before the loop. Every call
  of \<^verbatim>\<open>migrateRepo\<close> leaves the struct behind the pointer as it found it, so
  after any number of iterations the four fields are those that were loaded.
\<close>

theorem C9_options_unchanged:
  "optionsAfter (migrateRepo options w) = options \<and>
   optionsAfter (loop options ws) = options \<and>
   optionsAfter (main env ws) = loadOptions env"
  by (simp add: migrateRepo_options loop_options main_def Let_def)


text \<open>
  C10. Whenever the read returns a non-empty string, the slice succeeds and cuts exactly
  its last byte, newline or not, and the pattern is applied to what is left. A last line
  that ends with the input instead of a newline is returned whole by the read, so it loses
  its own last byte: \<^verbatim>\<open>https://github.com/acme/widgets\<close> without a newline
  asks GitHub for the repository \<^verbatim>\<open>acme/widget\<close>.
\<close>

theorem C10_last_byte_cut:
  assumes "fst (ReadString (CHR ''\<newline>'') (stdin w)) = line" and "line \<noteq> []"
  shows "sliceTo line (int (length line) - 1) = Some (butlast line) \<and>
         (CHR ''\<newline>'' \<notin> set (stdin w) \<longrightarrow> line = stdin w) \<and>
         migrateRepo options w =
           (let match = FindStringSubmatch re (butlast line) in
            if length match \<noteq> 3 then
              \<lparr> outcome = Returned,
                events = [FmtPrint (CHR ''\<newline>'' # ''Enter the GitHub URL: ''),
                          LogPrintln ''Invalid GitHub URL''],
                optionsAfter = options \<rparr>
            else
              \<lparr> outcome = Returned,
                events = FmtPrint (CHR ''\<newline>'' # ''Enter the GitHub URL: '') #
                         getGitHubRepo options w (match ! 1) (match ! 2),
                optionsAfter = options \<rparr>) \<and>
         (stdin w = ''https://github.com/acme/widgets'' \<longrightarrow>
            events (migrateRepo options w) =
              FmtPrint (CHR ''\<newline>'' # ''Enter the GitHub URL: '') #
              getGitHubRepo options w ''acme'' ''widget'')"
proof (intro conjI impI)
  show "sliceTo line (int (length line) - 1) = Some (butlast line)"
    by (rule sliceTo_butlast [OF assms(2)])
  show "line = stdin w" if "CHR ''\<newline>'' \<notin> set (stdin w)"
  proof -
    from that have "takeWhile (\<lambda>c. c \<noteq> CHR ''\<newline>'') (stdin w) = stdin w"
      by (auto simp: takeWhile_eq_all_conv)
    with assms(1) show ?thesis by (simp add: ReadString_def)
  qed
  show "migrateRepo options w =
           (let match = FindStringSubmatch re (butlast line) in
            if length match \<noteq> 3 then
              \<lparr> outcome = Returned,
                events = [FmtPrint (CHR ''\<newline>'' # ''Enter the GitHub URL: ''),
                          LogPrintln ''Invalid GitHub URL''],
                optionsAfter = options \<rparr>
            else
              \<lparr> outcome = Returned,
                events = FmtPrint (CHR ''\<newline>'' # ''Enter the GitHub URL: '') #
                         getGitHubRepo options w (match ! 1) (match ! 2),
                optionsAfter = options \<rparr>)"
    by (rule migrateRepo_line [OF assms])
  show "events (migrateRepo options w) =
          FmtPrint (CHR ''\<newline>'' # ''Enter the GitHub URL: '') #
          getGitHubRepo options w ''acme'' ''widget''"
    if "stdin w = ''https://github.com/acme/widgets''"
  proof -
    from that assms(1) have "line = ''https://github.com/acme/widgets''"
      by (simp add: ReadString_def)
    moreover have "FindStringSubmatch re ''https://github.com/acme/widget'' =
        [''github.com/acme/widget'', ''acme'', ''widget'']"
      by (simp add: matchHere_re)
    ultimately show ?thesis
      using migrateRepo_line [OF assms, of options] by simp
  qed
qed

theorem C10_last_byte_cut_witness:
  "fst (ReadString (CHR ''\<newline>'')
      (stdin (answering ''https://github.com/acme/widgets'' (Inl (TransportError ''offline'')) (Inl (TransportError ''offline''))))) =
     ''https://github.com/acme/widgets'' \<and>
   sliceTo ''https://github.com/acme/widgets'' 30 = Some ''https://github.com/acme/widget'' \<and>
   events (migrateRepo exampleOptions
     (answering ''https://github.com/acme/widgets'' (Inl (TransportError ''offline'')) (Inl (TransportError ''offline'')))) =
     [ FmtPrint (CHR ''\<newline>'' # ''Enter the GitHub URL: ''),
       LogPrintln ''Getting GitHub repo info...'',
       ClientDo (githubRequest exampleOptions ''acme'' ''widget''),
       LogError (TransportError ''offline'') ]"
proof -
  let ?w = "answering ''https://github.com/acme/widgets'' (Inl (TransportError ''offline'')) (Inl (TransportError ''offline''))"
  have line: "fst (ReadString (CHR ''\<newline>'') (stdin ?w)) = ''https://github.com/acme/widgets''"
    by (simp add: answering_def ReadString_def)
  have ne: "''https://github.com/acme/widgets'' \<noteq> []" by simp
  have gh: "getGitHubRepo exampleOptions ?w ''acme'' ''widget'' =
      [ LogPrintln ''Getting GitHub repo info...'',
        ClientDo (githubRequest exampleOptions ''acme'' ''widget''),
        LogError (TransportError ''offline'') ]"
    by (simp add: getGitHubRepo_def githubResponse_def answering_def githubRequest_def)
  have input: "stdin ?w = ''https://github.com/acme/widgets''" by (simp add: answering_def)
  note cut = C10_last_byte_cut [OF line ne, of exampleOptions]
  from cut have "sliceTo ''https://github.com/acme/widgets'' 30 = Some ''https://github.com/acme/widget''"
    by simp
  moreover from cut input have "events (migrateRepo exampleOptions ?w) =
      FmtPrint (CHR ''\<newline>'' # ''Enter the GitHub URL: '') #
      getGitHubRepo exampleOptions ?w ''acme'' ''widget''"
    by blast
  ultimately show ?thesis using line gh by simp
qed


section \<open>The answer of Gitea\<close>

text \<open>
  C1. The answer to the POST is handled in this order. A transport failure logs the error
  and ends the call. So does a body that cannot be read, and so does a body that cannot be
  decoded, whatever the status code is: the status is looked at only after the decode has
  succeeded. Then status 403 reports \<^verbatim>\<open>Forbidden\<close>, 409
  \<^verbatim>\<open>Repository with this name already exists\<close>, 422
  \<^verbatim>\<open>Wrong input?\<close>; with any other status an identifier of zero reports
  \<^verbatim>\<open>Repository creation failed\<close>, and a non-zero one reports the creation with
  the web URL of the repository. After the report only the deferred close of the body
  runs.
\<close>

theorem C1_classification_order:
  "giteaResponse (Inl err) = [LogError err] \<and>
   (ReadAll (Body resp) = Inl err \<longrightarrow>
      giteaResponse (Inr resp) = LogError err # deferredClose (Body resp)) \<and>
   (ReadAll (Body resp) = Inr data \<and> UnmarshalGiteaRepo data = Inl err \<longrightarrow>
      giteaResponse (Inr resp) = LogError err # deferredClose (Body resp)) \<and>
   (ReadAll (Body resp) = Inr data \<and> UnmarshalGiteaRepo data = Inr giteaRepo \<longrightarrow>
      (StatusCode resp = 403 \<longrightarrow>
         giteaResponse (Inr resp) = LogPrintln ''Forbidden'' # deferredClose (Body resp)) \<and>
      (StatusCode resp = 409 \<longrightarrow>
         giteaResponse (Inr resp) =
           LogPrintln ''Repository with this name already exists'' # deferredClose (Body resp)) \<and>
      (StatusCode resp = 422 \<longrightarrow>
         giteaResponse (Inr resp) = LogPrintln ''Wrong input?'' # deferredClose (Body resp)) \<and>
      (StatusCode resp \<notin> {403, 409, 422} \<and> Id giteaRepo = 0 \<longrightarrow>
         giteaResponse (Inr resp) =
           LogPrintln ''Repository creation failed'' # deferredClose (Body resp)) \<and>
      (StatusCode resp \<notin> {403, 409, 422} \<and> Id giteaRepo \<noteq> 0 \<longrightarrow>
         giteaResponse (Inr resp) =
           LogPrintln (''Repository created: '' @ HtmlUrl giteaRepo) # deferredClose (Body resp)))"
  by (simp add: giteaResponse_def classify_def)

theorem C1_classification_order_witness:
  "giteaResponse (respond 409 (Wellformed (JObject [(''id'', JInt 0)]))) =
     [LogPrintln ''Repository with this name already exists''] \<and>
   giteaResponse (respond 403 (Malformed ''<html>Forbidden</html>'')) = [LogError SyntaxError]"
proof -
  let ?ok = "\<lparr> StatusCode = 409, Body = \<lparr> ReadAll = Inr (Wellformed (JObject [(''id'', JInt 0)])), Close = None \<rparr> \<rparr>"
  let ?bad = "\<lparr> StatusCode = 403, Body = \<lparr> ReadAll = Inr (Malformed ''<html>Forbidden</html>''), Close = None \<rparr> \<rparr>"
  have dec: "UnmarshalGiteaRepo (Wellformed (JObject [(''id'', JInt 0)])) = Inr zeroGiteaRepo"
    by (simp add: UnmarshalGiteaRepo_def equalFold_def toUpperASCII_def storeInt64_def zeroGiteaRepo_def)
  have bad: "UnmarshalGiteaRepo (Malformed ''<html>Forbidden</html>'') = Inl SyntaxError"
    by (simp add: UnmarshalGiteaRepo_def)
  from C1_classification_order [of _ ?ok "Wellformed (JObject [(''id'', JInt 0)])" zeroGiteaRepo] dec
  have "giteaResponse (Inr ?ok) = LogPrintln ''Repository with this name already exists'' # deferredClose (Body ?ok)"
    by simp
  moreover from C1_classification_order [of SyntaxError ?bad "Malformed ''<html>Forbidden</html>''"] bad
  have "giteaResponse (Inr ?bad) = LogError SyntaxError # deferredClose (Body ?bad)"
    by simp
  ultimately show ?thesis by (simp add: respond_def deferredClose_def)
qed

text \<open>
  C5. A decoded Gitea response whose identifier is zero and whose status is none of 403,
  409 and 422 is reported as \<^verbatim>\<open>Repository creation failed\<close>, also when the
  status is 200.
\<close>

theorem C5_zero_identifier:
  assumes "ReadAll (Body resp) = Inr data" and "UnmarshalGiteaRepo data = Inr giteaRepo"
    and "Id giteaRepo = 0" and "StatusCode resp \<notin> {403, 409, 422}"
  shows "giteaResponse (Inr resp) =
           LogPrintln ''Repository creation failed'' # deferredClose (Body resp)"
  using assms by (simp add: giteaResponse_def classify_def)

theorem C5_zero_identifier_witness:
  "UnmarshalGiteaRepo (Wellformed (JObject [(''id'', JInt 0), (''html_url'', JString ''https://gitea.local/acme/widgets'')])) =
     Inr \<lparr> Id = 0, HtmlUrl = ''https://gitea.local/acme/widgets'' \<rparr> \<and>
   giteaResponse (respond 200 (Wellformed (JObject [(''id'', JInt 0), (''html_url'', JString ''https://gitea.local/acme/widgets'')]))) =
     [LogPrintln ''Repository creation failed'']"
proof -
  let ?data = "Wellformed (JObject [(''id'', JInt 0), (''html_url'', JString ''https://gitea.local/acme/widgets'')])"
  let ?resp = "\<lparr> StatusCode = 200, Body = \<lparr> ReadAll = Inr ?data, Close = None \<rparr> \<rparr>"
  have dec: "UnmarshalGiteaRepo ?data = Inr \<lparr> Id = 0, HtmlUrl = ''https://gitea.local/acme/widgets'' \<rparr>"
    by (simp add: UnmarshalGiteaRepo_def equalFold_def toUpperASCII_def storeInt64_def
        storeString_def zeroGiteaRepo_def)
  have "giteaResponse (Inr ?resp) = LogPrintln ''Repository creation failed'' # deferredClose (Body ?resp)"
    by (rule C5_zero_identifier [OF _ dec]) simp_all
  with dec show ?thesis by (simp add: respond_def deferredClose_def)
qed

section \<open>The migration request\<close>

lemma coerce_ascii: "byte b < 0x80 \<Longrightarrow> coerce 0 (b # t) = b # coerce 0 t"
  by (simp add: runeWidth_def)

lemma toValidUTF8_ascii: "list_all (\<lambda>c. byte c < 0x80) s \<Longrightarrow> toValidUTF8 s = s"
  unfolding toValidUTF8_def by (induction s) (simp_all add: coerce_ascii del: coerce.simps(3))

text \<open>
  C2 as stated fails when no GitHub token is configured: the request for a public
  repository then has the empty auth token, which is the configured token, although the
  private flag is false.
\<close>

theorem C2_counterexample:
  "AuthToken (migrateOptions
      \<lparr> GiteaInstance = ''gitea.local'', GitHubToken = [], GiteaToken = ''gitea_secret'', GiteaOwner = ''acme'' \<rparr>
      \<lparr> CloneURL = ''https://github.com/acme/widgets.git'', GitHubRepo.Description = ''A widget'',
        Name = ''widgets'', GitHubRepo.Private = False \<rparr>) =
   GitHubToken \<lparr> GiteaInstance = ''gitea.local'', GitHubToken = [], GiteaToken = ''gitea_secret'', GiteaOwner = ''acme'' \<rparr> \<and>
   \<not> GitHubRepo.Private
      \<lparr> CloneURL = ''https://github.com/acme/widgets.git'', GitHubRepo.Description = ''A widget'',
        Name = ''widgets'', GitHubRepo.Private = False \<rparr>"
  by (simp add: migrateOptions_def)

text \<open>
  C2, as amended. The auth token of the request is the configured GitHub token when the
  descriptor is private and the empty string when it is public; so, whenever the
  configured token is not empty, the auth token is the configured token if and only if
  the descriptor is private.
\<close>

theorem C2_auth_token:
  "AuthToken (migrateOptions options repo) =
     (if GitHubRepo.Private repo then GitHubToken options else []) \<and>
   (\<not> GitHubRepo.Private repo \<longrightarrow> AuthToken (migrateOptions options repo) = []) \<and>
   (GitHubToken options \<noteq> [] \<longrightarrow>
      (AuthToken (migrateOptions options repo) = GitHubToken options \<longleftrightarrow> GitHubRepo.Private repo))"
  by (auto simp add: migrateOptions_def)

theorem C2_auth_token_witness:
  "GitHubToken exampleOptions \<noteq> [] \<and>
   AuthToken (migrateOptions exampleOptions
      \<lparr> CloneURL = ''https://github.com/acme/widgets.git'', GitHubRepo.Description = ''A widget'',
        Name = ''widgets'', GitHubRepo.Private = True \<rparr>) = ''ghp_secret'' \<and>
   AuthToken (migrateOptions exampleOptions
      \<lparr> CloneURL = ''https://github.com/acme/widgets.git'', GitHubRepo.Description = ''A widget'',
        Name = ''widgets'', GitHubRepo.Private = False \<rparr>) = []"
  using
    C2_auth_token [of exampleOptions "\<lparr> CloneURL = ''https://github.com/acme/widgets.git'', GitHubRepo.Description = ''A widget'',
        Name = ''widgets'', GitHubRepo.Private = True \<rparr>"]
    C2_auth_token [of exampleOptions "\<lparr> CloneURL = ''https://github.com/acme/widgets.git'', GitHubRepo.Description = ''A widget'',
        Name = ''widgets'', GitHubRepo.Private = False \<rparr>"]
  by (simp add: exampleOptions_def)

text \<open>
  C7. The request has mirror and wiki set, the service \<^verbatim>\<open>github\<close>, the
  configured Gitea owner, the clone URL of the source as clone address, and the
  description, name and private flag of the descriptor. Its serialization is an object
  with exactly the members \<^verbatim>\<open>auth_token\<close>, \<^verbatim>\<open>clone_addr\<close>,
  \<^verbatim>\<open>description\<close>, \<^verbatim>\<open>mirror\<close>, \<^verbatim>\<open>private\<close>,
  \<^verbatim>\<open>repo_name\<close>, \<^verbatim>\<open>repo_owner\<close>, \<^verbatim>\<open>service\<close> and
  \<^verbatim>\<open>wiki\<close>, each string written as valid UTF-8 (a byte of the configured
  owner or token that is not UTF-8 becomes U+FFFD), and that serialization is the body of
  the POST that is sent.
\<close>

theorem C7_migration_request:
  "migrateOptions options repo =
     \<lparr> AuthToken = (if GitHubRepo.Private repo then GitHubToken options else []),
       CloneAddr = CloneURL repo,
       MigrateRepoOptions.Description = GitHubRepo.Description repo,
       Mirror = True,
       MigrateRepoOptions.Private = GitHubRepo.Private repo,
       RepoName = Name repo,
       RepoOwner = GiteaOwner options,
       Service = ''github'',
       Wiki = True \<rparr> \<and>
   Marshal (migrateOptions options repo) =
     Inr (Wellformed (JObject
       [ (''auth_token'',
            JString (toValidUTF8 (if GitHubRepo.Private repo then GitHubToken options else []))),
         (''clone_addr'', JString (toValidUTF8 (CloneURL repo))),
         (''description'', JString (toValidUTF8 (GitHubRepo.Description repo))),
         (''mirror'', JBool True),
         (''private'', JBool (GitHubRepo.Private repo)),
         (''repo_name'', JString (toValidUTF8 (Name repo))),
         (''repo_owner'', JString (toValidUTF8 (GiteaOwner options))),
         (''service'', JString ''github''),
         (''wiki'', JBool True) ])) \<and>
   (Marshal (migrateOptions options repo) = Inr jsonData \<and>
    req = giteaRequest options jsonData \<and>
    NewRequest w (Method req) (URL req) = None \<longrightarrow>
      Payload req = Some jsonData \<and>
      createGiteaRepository options w repo =
        [LogPrintln ''Creating Gitea repository...'', ClientDo req] @ giteaResponse (Do w req))"
proof -
  have service: "toValidUTF8 ''github'' = ''github''"
    by (simp add: toValidUTF8_ascii byte_def)
  show ?thesis
    by (auto simp add: migrateOptions_def Marshal_def createGiteaRepository_def giteaRequest_def
        Let_def service)
qed

theorem C7_migration_request_witness:
  "NewRequest (answering [] (Inl (TransportError ''offline'')) (Inl (TransportError ''offline'')))
     ''POST'' (''https://'' @ GiteaInstance exampleOptions @ ''/api/v1/repos/migrate'') = None \<and>
   createGiteaRepository exampleOptions
     (answering [] (Inl (TransportError ''offline'')) (Inl (TransportError ''offline'')))
     \<lparr> CloneURL = ''https://github.com/acme/widgets.git'', GitHubRepo.Description = ''A widget'',
       Name = ''widgets'', GitHubRepo.Private = True \<rparr> =
     [ LogPrintln ''Creating Gitea repository...'',
       ClientDo
         \<lparr> Method = ''POST'',
           URL = ''https://gitea.local/api/v1/repos/migrate'',
           Header = [(''Content-Type'', ''application/json''),
                     (''Authorization'', ''Bearer gitea_secret'')],
           Payload = Some (Wellformed (JObject
             [ (''auth_token'', JString ''ghp_secret''),
               (''clone_addr'', JString ''https://github.com/acme/widgets.git''),
               (''description'', JString ''A widget''),
               (''mirror'', JBool True),
               (''private'', JBool True),
               (''repo_name'', JString ''widgets''),
               (''repo_owner'', JString ''acme''),
               (''service'', JString ''github''),
               (''wiki'', JBool True) ])) \<rparr>,
       LogError (TransportError ''offline'') ]"
proof -
  let ?w = "answering [] (Inl (TransportError ''offline'')) (Inl (TransportError ''offline''))"
  let ?repo = "\<lparr> CloneURL = ''https://github.com/acme/widgets.git'', GitHubRepo.Description = ''A widget'',
       Name = ''widgets'', GitHubRepo.Private = True \<rparr>"
  have accepted: "NewRequest ?w ''POST'' (''https://'' @ GiteaInstance exampleOptions @ ''/api/v1/repos/migrate'') = None"
    by (simp add: answering_def)
  have offline: "giteaResponse (Do ?w req) = [LogError (TransportError ''offline'')]"
    if "Method req = ''POST''" for req
    using that by (simp add: answering_def giteaResponse_def)
  let ?data = "Wellformed (JObject
       [ (''auth_token'', JString ''ghp_secret''),
         (''clone_addr'', JString ''https://github.com/acme/widgets.git''),
         (''description'', JString ''A widget''),
         (''mirror'', JBool True),
         (''private'', JBool True),
         (''repo_name'', JString ''widgets''),
         (''repo_owner'', JString ''acme''),
         (''service'', JString ''github''),
         (''wiki'', JBool True) ])"
  note request = C7_migration_request [of exampleOptions ?repo ?data "giteaRequest exampleOptions ?data" ?w]
  have data: "Marshal (migrateOptions exampleOptions ?repo) = Inr ?data"
    using request [THEN conjunct2, THEN conjunct1]
    by (simp add: exampleOptions_def toValidUTF8_ascii byte_def)
  have "NewRequest ?w (Method (giteaRequest exampleOptions ?data)) (URL (giteaRequest exampleOptions ?data)) = None"
    by (simp add: answering_def)
  with request [THEN conjunct2, THEN conjunct2] data
  have "createGiteaRepository exampleOptions ?w ?repo =
      [LogPrintln ''Creating Gitea repository...'', ClientDo (giteaRequest exampleOptions ?data)] @
      giteaResponse (Do ?w (giteaRequest exampleOptions ?data))"
    by blast
  moreover have "Method (giteaRequest exampleOptions ?data) = ''POST''"
    by (simp add: giteaRequest_def)
  ultimately show ?thesis using accepted offline
    by (simp add: giteaRequest_def exampleOptions_def)
qed


text \<open>
  An owner that is not UTF-8 reaches Gitea with U+FFFD in place of the offending byte.
\<close>

lemma Marshal_invalid_owner:
  "Marshal (migrateOptions (exampleOptions\<lparr>GiteaOwner := [CHR 0xFF, CHR ''a'']\<rparr>) zeroGitHubRepo) =
     Inr (Wellformed (JObject
       [ (''auth_token'', JString []),
         (''clone_addr'', JString []),
         (''description'', JString []),
         (''mirror'', JBool True),
         (''private'', JBool False),
         (''repo_name'', JString []),
         (''repo_owner'', JString [CHR 0xEF, CHR 0xBF, CHR 0xBD, CHR ''a'']),
         (''service'', JString ''github''),
         (''wiki'', JBool True) ]))"
  by (simp add: Marshal_def migrateOptions_def zeroGitHubRepo_def exampleOptions_def
      toValidUTF8_def runeWidth_def byte_def)

section \<open>The answer of GitHub\<close>

lemma storeString_Inr_iff: "(\<exists>s. storeString f v old = Inr s) \<longleftrightarrow> isStringOrNull v"
  by (cases v) (simp_all add: storeString_def isStringOrNull_def)

lemma storeBool_Inr_iff: "(\<exists>b. storeBool f v old = Inr b) \<longleftrightarrow> isBoolOrNull v"
  by (cases v) (simp_all add: storeBool_def isBoolOrNull_def)

lemma storeString_cases:
  obtains (ok) s where "storeString f v old = Inr s" "isStringOrNull v"
  | (err) e where "storeString f v old = Inl e" "\<not> isStringOrNull v"
  by (cases v) (simp_all add: storeString_def isStringOrNull_def)

lemma storeBool_cases:
  obtains (ok) b where "storeBool f v old = Inr b" "isBoolOrNull v"
  | (err) e where "storeBool f v old = Inl e" "\<not> isBoolOrNull v"
  by (cases v) (simp_all add: storeBool_def isBoolOrNull_def)

lemma decodeGitHubRepo_fits:
  "(\<exists>repo. decodeGitHubRepo members r = Inr repo) \<longleftrightarrow> fitsGitHubRepo members"
proof (induction members arbitrary: r)
  case Nil
  show ?case by (simp add: fitsGitHubRepo_def)
next
  case (Cons m members)
  obtain key v where m: "m = (key, v)" by (cases m)
  have tail: "(\<exists>repo. decodeGitHubRepo members r' = Inr repo) \<longleftrightarrow> fitsGitHubRepo members" for r'
    by (rule Cons.IH)
  have fits: "fitsGitHubRepo (m # members) \<longleftrightarrow>
      (if equalFold key ''clone_url'' \<or> equalFold key ''description'' \<or> equalFold key ''name''
       then isStringOrNull v
       else if equalFold key ''private'' then isBoolOrNull v else True) \<and> fitsGitHubRepo members"
    by (simp add: fitsGitHubRepo_def m)
  show ?case
  proof (cases "equalFold key ''clone_url'' \<or> equalFold key ''description'' \<or> equalFold key ''name''")
    case True
    show ?thesis
    proof (cases rule: storeString_cases [of "''clone_url''" v "CloneURL r"])
      case (ok s)
      then have "isStringOrNull v" by simp
      then obtain s1 s2 s3 where
        "storeString ''clone_url'' v (CloneURL r) = Inr s1"
        "storeString ''description'' v (GitHubRepo.Description r) = Inr s2"
        "storeString ''name'' v (Name r) = Inr s3"
        using storeString_Inr_iff by metis
      with True show ?thesis
        unfolding fits using \<open>isStringOrNull v\<close> tail by (auto simp add: m)
    next
      case (err e)
      then have "\<not> isStringOrNull v" by simp
      then obtain e1 e2 e3 where
        "storeString ''clone_url'' v (CloneURL r) = Inl e1"
        "storeString ''description'' v (GitHubRepo.Description r) = Inl e2"
        "storeString ''name'' v (Name r) = Inl e3"
        by (metis storeString_cases)
      with True show ?thesis
        unfolding fits using \<open>\<not> isStringOrNull v\<close> by (auto simp add: m)
    qed
  next
    case False
    show ?thesis
    proof (cases "equalFold key ''private''")
      case True
      show ?thesis
      proof (cases rule: storeBool_cases [of "''private''" v "GitHubRepo.Private r"])
        case (ok b)
        with True False show ?thesis unfolding fits using tail by (auto simp add: m)
      next
        case (err e)
        with True False show ?thesis unfolding fits by (auto simp add: m)
      qed
    next
      case no: False
      with False show ?thesis unfolding fits using tail by (auto simp add: m)
    qed
  qed
qed

lemma decodeGitHubRepo_absent:
  assumes "decodeGitHubRepo members r = Inr repo"
  shows "(absent ''clone_url'' members \<longrightarrow> CloneURL repo = CloneURL r) \<and>
         (absent ''description'' members \<longrightarrow> GitHubRepo.Description repo = GitHubRepo.Description r) \<and>
         (absent ''name'' members \<longrightarrow> Name repo = Name r) \<and>
         (absent ''private'' members \<longrightarrow> GitHubRepo.Private repo = GitHubRepo.Private r)"
  using assms
proof (induction members arbitrary: r)
  case Nil
  then show ?case by simp
next
  case (Cons m members)
  obtain key v where m: "m = (key, v)" by (cases m)
  from Cons.prems obtain r' where
    step: "decodeGitHubRepo members r' = Inr repo"
    and same: "\<not> equalFold key ''clone_url'' \<longrightarrow> CloneURL r' = CloneURL r"
      "\<not> equalFold key ''description'' \<longrightarrow> GitHubRepo.Description r' = GitHubRepo.Description r"
      "\<not> equalFold key ''name'' \<longrightarrow> Name r' = Name r"
      "\<not> equalFold key ''private'' \<longrightarrow> GitHubRepo.Private r' = GitHubRepo.Private r"
    by (auto simp add: m split: if_splits sum.splits)
  from Cons.IH [OF step] same show ?case
    by (auto simp add: absent_def m)
qed


lemma githubResponse_status: 
  "githubResponse options w (Inr (resp\<lparr>StatusCode := code\<rparr>)) = githubResponse options w (Inr resp)"
  by (simp add: githubResponse_def)

lemma createGiteaRepository_posts:
  assumes "Marshal (migrateOptions options repo) = Inr jsonData"
    and "NewRequest w ''POST'' (URL (giteaRequest options jsonData)) = None"
  shows "ClientDo (giteaRequest options jsonData) \<in> set (createGiteaRepository options w repo)"
proof -
  have "Method (giteaRequest options jsonData) = ''POST''" by (simp add: giteaRequest_def)
  with assms show ?thesis by (simp add: createGiteaRepository_def Let_def)
qed

lemma githubResponse_not_object:
  assumes "ReadAll (Body resp) = Inr (Wellformed v)" and "v \<noteq> JNull" and "\<forall>members. v \<noteq> JObject members"
  shows "githubResponse options w (Inr resp) =
           LogError (UnmarshalTypeError ''GitHubRepo'') # deferredClose (Body resp)"
  using assms by (cases v) (simp_all add: githubResponse_def UnmarshalGitHubRepo_def)

text \<open>
  C4, as amended. The status code of the GitHub response is never read: the call does the
  same for every status. When the body is \<^verbatim>\<open>null\<close>, or a JSON object in
  which every member that names a field of the descriptor holds a value of the field's
  type or \<^verbatim>\<open>null\<close> (an error body of a 404 or 401 is such an object), it is
  decoded into a descriptor whose absent fields are zero (all of them for
  \<^verbatim>\<open>null\<close>), and the call goes on to build the migration request from it and,
  when the POST request can be built, to send it. Every other valid JSON body, that is an
  object that does not fit or a value that is neither an object nor
  \<^verbatim>\<open>null\<close>, is a decode error; the error is logged and the call ends.
\<close>

theorem C4_status_not_inspected:
  "githubResponse options w (Inr (resp\<lparr>StatusCode := code\<rparr>)) = githubResponse options w (Inr resp) \<and>
   (ReadAll (Body resp) = Inr (Wellformed (JObject members)) \<and> fitsGitHubRepo members \<longrightarrow>
      (\<exists>repo.
         UnmarshalGitHubRepo (Wellformed (JObject members)) = Inr repo \<and>
         (absent ''clone_url'' members \<longrightarrow> CloneURL repo = []) \<and>
         (absent ''description'' members \<longrightarrow> GitHubRepo.Description repo = []) \<and>
         (absent ''name'' members \<longrightarrow> Name repo = []) \<and>
         (absent ''private'' members \<longrightarrow> \<not> GitHubRepo.Private repo) \<and>
         githubResponse options w (Inr resp) =
           LogPrintln (''Got repo: '' @ Name repo) #
           createGiteaRepository options w repo @ deferredClose (Body resp) \<and>
         (\<forall>jsonData.
            Marshal (migrateOptions options repo) = Inr jsonData \<and>
            NewRequest w ''POST'' (URL (giteaRequest options jsonData)) = None \<longrightarrow>
            ClientDo (giteaRequest options jsonData) \<in> set (createGiteaRepository options w repo)))) \<and>
   (ReadAll (Body resp) = Inr (Wellformed JNull) \<longrightarrow>
      UnmarshalGitHubRepo (Wellformed JNull) =
        Inr \<lparr> CloneURL = [], GitHubRepo.Description = [], Name = [], GitHubRepo.Private = False \<rparr> \<and>
      githubResponse options w (Inr resp) =
        LogPrintln ''Got repo: '' #
        createGiteaRepository options w zeroGitHubRepo @ deferredClose (Body resp) \<and>
      (\<forall>jsonData.
         Marshal (migrateOptions options zeroGitHubRepo) = Inr jsonData \<and>
         NewRequest w ''POST'' (URL (giteaRequest options jsonData)) = None \<longrightarrow>
         ClientDo (giteaRequest options jsonData) \<in>
           set (createGiteaRepository options w zeroGitHubRepo))) \<and>
   (ReadAll (Body resp) = Inr (Wellformed (JObject members)) \<and> \<not> fitsGitHubRepo members \<longrightarrow>
      (\<exists>err. githubResponse options w (Inr resp) = LogError err # deferredClose (Body resp))) \<and>
   (ReadAll (Body resp) = Inr (Wellformed v) \<and> v \<noteq> JNull \<and> (\<forall>ms. v \<noteq> JObject ms) \<longrightarrow>
      githubResponse options w (Inr resp) =
        LogError (UnmarshalTypeError ''GitHubRepo'') # deferredClose (Body resp))"
proof (intro conjI impI)
  show "githubResponse options w (Inr (resp\<lparr>StatusCode := code\<rparr>)) = githubResponse options w (Inr resp)"
    by (rule githubResponse_status)
next
  assume a: "ReadAll (Body resp) = Inr (Wellformed (JObject members)) \<and> fitsGitHubRepo members"
  then obtain repo where dec: "decodeGitHubRepo members zeroGitHubRepo = Inr repo"
    using decodeGitHubRepo_fits by blast
  have un: "UnmarshalGitHubRepo (Wellformed (JObject members)) = Inr repo"
    by (simp add: UnmarshalGitHubRepo_def dec)
  have zero: "(absent ''clone_url'' members \<longrightarrow> CloneURL repo = []) \<and>
         (absent ''description'' members \<longrightarrow> GitHubRepo.Description repo = []) \<and>
         (absent ''name'' members \<longrightarrow> Name repo = []) \<and>
         (absent ''private'' members \<longrightarrow> \<not> GitHubRepo.Private repo)"
    using decodeGitHubRepo_absent [OF dec] by (simp add: zeroGitHubRepo_def)
  have go: "githubResponse options w (Inr resp) =
           LogPrintln (''Got repo: '' @ Name repo) #
           createGiteaRepository options w repo @ deferredClose (Body resp)"
    using a un by (simp add: githubResponse_def)
  have post: "\<forall>jsonData.
            Marshal (migrateOptions options repo) = Inr jsonData \<and>
            NewRequest w ''POST'' (URL (giteaRequest options jsonData)) = None \<longrightarrow>
            ClientDo (giteaRequest options jsonData) \<in> set (createGiteaRepository options w repo)"
    using createGiteaRepository_posts by blast
  from un zero go post
  show "\<exists>repo.
         UnmarshalGitHubRepo (Wellformed (JObject members)) = Inr repo \<and>
         (absent ''clone_url'' members \<longrightarrow> CloneURL repo = []) \<and>
         (absent ''description'' members \<longrightarrow> GitHubRepo.Description repo = []) \<and>
         (absent ''name'' members \<longrightarrow> Name repo = []) \<and>
         (absent ''private'' members \<longrightarrow> \<not> GitHubRepo.Private repo) \<and>
         githubResponse options w (Inr resp) =
           LogPrintln (''Got repo: '' @ Name repo) #
           createGiteaRepository options w repo @ deferredClose (Body resp) \<and>
         (\<forall>jsonData.
            Marshal (migrateOptions options repo) = Inr jsonData \<and>
            NewRequest w ''POST'' (URL (giteaRequest options jsonData)) = None \<longrightarrow>
            ClientDo (giteaRequest options jsonData) \<in> set (createGiteaRepository options w repo))"
    by blast
next
  show "UnmarshalGitHubRepo (Wellformed JNull) =
      Inr \<lparr> CloneURL = [], GitHubRepo.Description = [], Name = [], GitHubRepo.Private = False \<rparr>"
    by (simp add: UnmarshalGitHubRepo_def zeroGitHubRepo_def)
next
  assume "ReadAll (Body resp) = Inr (Wellformed JNull)"
  then show "githubResponse options w (Inr resp) =
      LogPrintln ''Got repo: '' #
      createGiteaRepository options w zeroGitHubRepo @ deferredClose (Body resp)"
    by (simp add: githubResponse_def UnmarshalGitHubRepo_def zeroGitHubRepo_def)
next
  show "\<forall>jsonData.
         Marshal (migrateOptions options zeroGitHubRepo) = Inr jsonData \<and>
         NewRequest w ''POST'' (URL (giteaRequest options jsonData)) = None \<longrightarrow>
         ClientDo (giteaRequest options jsonData) \<in>
           set (createGiteaRepository options w zeroGitHubRepo)"
    using createGiteaRepository_posts by blast
next
  assume a: "ReadAll (Body resp) = Inr (Wellformed (JObject members)) \<and> \<not> fitsGitHubRepo members"
  then have "\<not> (\<exists>repo. decodeGitHubRepo members zeroGitHubRepo = Inr repo)"
    using decodeGitHubRepo_fits by blast
  then obtain err where "decodeGitHubRepo members zeroGitHubRepo = Inl err"
    by (cases "decodeGitHubRepo members zeroGitHubRepo") auto
  with a have "githubResponse options w (Inr resp) = LogError err # deferredClose (Body resp)"
    by (simp add: githubResponse_def UnmarshalGitHubRepo_def)
  then show "\<exists>err. githubResponse options w (Inr resp) = LogError err # deferredClose (Body resp)"
    by blast
next
  assume "ReadAll (Body resp) = Inr (Wellformed v) \<and> v \<noteq> JNull \<and> (\<forall>ms. v \<noteq> JObject ms)"
  then show "githubResponse options w (Inr resp) =
      LogError (UnmarshalTypeError ''GitHubRepo'') # deferredClose (Body resp)"
    using githubResponse_not_object by blast
qed

text \<open>
  C4 as stated fails for a body that is valid JSON but not an object: a 404 whose body is
  the JSON string \<^verbatim>\<open>"Not Found"\<close> is a decode error, and no migration is
  attempted.
\<close>

theorem C4_counterexample:
  "events (migrateRepo exampleOptions
     (answering ''https://github.com/acme/widgets\<newline>''
        (respond 404 (Wellformed (JString ''Not Found'')))
        (respond 201 (Wellformed (JObject [(''id'', JInt 42)]))))) =
     [ FmtPrint (CHR ''\<newline>'' # ''Enter the GitHub URL: ''),
       LogPrintln ''Getting GitHub repo info...'',
       ClientDo (githubRequest exampleOptions ''acme'' ''widgets''),
       LogError (UnmarshalTypeError ''GitHubRepo'') ]"
  by (simp add: migrateRepo_def answering_def respond_def ReadString_def sliceTo_def matchHere_re
      getGitHubRepo_def githubRequest_def githubResponse_def UnmarshalGitHubRepo_def
      deferredClose_def)


lemma equalFold_examples:
  "\<not> equalFold ''message'' ''clone_url''" "\<not> equalFold ''message'' ''description''"
  "\<not> equalFold ''message'' ''name''" "\<not> equalFold ''message'' ''private''"
  "\<not> equalFold ''status'' ''clone_url''" "\<not> equalFold ''status'' ''description''"
  "\<not> equalFold ''status'' ''name''" "\<not> equalFold ''status'' ''private''"
  "equalFold ''id'' ''id''" "\<not> equalFold ''html_url'' ''id''" "equalFold ''html_url'' ''html_url''"
  by (simp_all add: equalFold_def toUpperASCII_def)

theorem C4_status_not_inspected_witness:
  "fitsGitHubRepo [(''message'', JString ''Not Found''), (''status'', JString ''404'')] \<and>
   githubResponse exampleOptions
     (answering [] (Inl (TransportError ''unused'')) (respond 422 (Wellformed (JObject [(''message'', JString ''invalid'')]))))
     (respond 404 (Wellformed (JObject [(''message'', JString ''Not Found''), (''status'', JString ''404'')]))) =
     [ LogPrintln ''Got repo: '',
       LogPrintln ''Creating Gitea repository...'',
       ClientDo (giteaRequest exampleOptions (Wellformed (JObject
         [ (''auth_token'', JString []),
           (''clone_addr'', JString []),
           (''description'', JString []),
           (''mirror'', JBool True),
           (''private'', JBool False),
           (''repo_name'', JString []),
           (''repo_owner'', JString ''acme''),
           (''service'', JString ''github''),
           (''wiki'', JBool True) ]))),
       LogPrintln ''Wrong input?'' ] \<and>
   githubResponse exampleOptions
     (answering [] (Inl (TransportError ''unused'')) (respond 422 (Wellformed (JObject [(''message'', JString ''invalid'')]))))
     (respond 401 (Wellformed JNull)) =
     [ LogPrintln ''Got repo: '',
       LogPrintln ''Creating Gitea repository...'',
       ClientDo (giteaRequest exampleOptions (Wellformed (JObject
         [ (''auth_token'', JString []),
           (''clone_addr'', JString []),
           (''description'', JString []),
           (''mirror'', JBool True),
           (''private'', JBool False),
           (''repo_name'', JString []),
           (''repo_owner'', JString ''acme''),
           (''service'', JString ''github''),
           (''wiki'', JBool True) ]))),
       LogPrintln ''Wrong input?'' ]"
proof -
  let ?members = "[(''message'', JString ''Not Found''), (''status'', JString ''404'')]"
  let ?w = "answering [] (Inl (TransportError ''unused'')) (respond 422 (Wellformed (JObject [(''message'', JString ''invalid'')])))"
  let ?resp = "\<lparr> StatusCode = 404, Body = \<lparr> ReadAll = Inr (Wellformed (JObject ?members)), Close = None \<rparr> \<rparr>"
  let ?null = "\<lparr> StatusCode = 401, Body = \<lparr> ReadAll = Inr (Wellformed JNull), Close = None \<rparr> \<rparr>"
  have fits: "fitsGitHubRepo ?members"
    by (simp add: fitsGitHubRepo_def equalFold_examples)
  have absent: "absent ''clone_url'' ?members" "absent ''description'' ?members"
    "absent ''name'' ?members" "absent ''private'' ?members"
    by (simp_all add: absent_def equalFold_examples)
  have body: "ReadAll (Body ?resp) = Inr (Wellformed (JObject ?members))" by simp
  from C4_status_not_inspected [where options = exampleOptions and w = ?w and resp = ?resp and members = ?members] body fits absent
  obtain repo where repo: "CloneURL repo = []" "GitHubRepo.Description repo = []" "Name repo = []"
    "\<not> GitHubRepo.Private repo"
    and go: "githubResponse exampleOptions ?w (Inr ?resp) =
       LogPrintln (''Got repo: '' @ Name repo) #
       createGiteaRepository exampleOptions ?w repo @ deferredClose (Body ?resp)"
    by blast
  from repo have zero: "repo = zeroGitHubRepo" by (cases repo) (simp add: zeroGitHubRepo_def)
  have null_body: "ReadAll (Body ?null) = Inr (Wellformed JNull)" by simp
  from C4_status_not_inspected [where options = exampleOptions and w = ?w and resp = ?null] null_body
  have go_null: "githubResponse exampleOptions ?w (Inr ?null) =
       LogPrintln ''Got repo: '' #
       createGiteaRepository exampleOptions ?w zeroGitHubRepo @ deferredClose (Body ?null)"
    by blast
  have create: "createGiteaRepository exampleOptions ?w zeroGitHubRepo =
     [ LogPrintln ''Creating Gitea repository...'',
       ClientDo (giteaRequest exampleOptions (Wellformed (JObject
         [ (''auth_token'', JString []),
           (''clone_addr'', JString []),
           (''description'', JString []),
           (''mirror'', JBool True),
           (''private'', JBool False),
           (''repo_name'', JString []),
           (''repo_owner'', JString ''acme''),
           (''service'', JString ''github''),
           (''wiki'', JBool True) ]))),
       LogPrintln ''Wrong input?'' ]"
    by (simp add: createGiteaRepository_def migrateOptions_def Marshal_def zeroGitHubRepo_def
        Let_def answering_def respond_def giteaRequest_def giteaResponse_def
        UnmarshalGiteaRepo_def equalFold_def toUpperASCII_def classify_def deferredClose_def
        exampleOptions_def toValidUTF8_ascii byte_def)
  have first: "githubResponse exampleOptions ?w (respond 404 (Wellformed (JObject ?members))) =
      LogPrintln ''Got repo: '' # createGiteaRepository exampleOptions ?w zeroGitHubRepo"
    using go zero by (simp add: respond_def deferredClose_def zeroGitHubRepo_def)
  have second: "githubResponse exampleOptions ?w (respond 401 (Wellformed JNull)) =
      LogPrintln ''Got repo: '' # createGiteaRepository exampleOptions ?w zeroGitHubRepo"
    using go_null by (simp add: respond_def deferredClose_def)
  show ?thesis
    unfolding first second create using fits by simp
qed

section \<open>The scenario of the specification\<close>

text \<open>
  The whole call on the example of the specification: the URL of a public repository, the
  descriptor from GitHub, status 201 and identifier 42 from Gitea.
\<close>

lemma scenario_created:
  "events (migrateRepo exampleOptions
     (answering ''https://github.com/acme/widgets\<newline>''
        (respond 200 (Wellformed (JObject
           [ (''name'', JString ''widgets''),
             (''clone_url'', JString ''https://github.com/acme/widgets.git''),
             (''private'', JBool False),
             (''description'', JString ''A widget'') ])))
        (respond 201 (Wellformed (JObject
           [ (''id'', JInt 42), (''html_url'', JString ''https://gitea.local/acme/widgets'') ]))))) =
     [ FmtPrint (CHR ''\<newline>'' # ''Enter the GitHub URL: ''),
       LogPrintln ''Getting GitHub repo info...'',
       ClientDo (githubRequest exampleOptions ''acme'' ''widgets''),
       LogPrintln ''Got repo: widgets'',
       LogPrintln ''Creating Gitea repository...'',
       ClientDo (giteaRequest exampleOptions (Wellformed (JObject
         [ (''auth_token'', JString []),
           (''clone_addr'', JString ''https://github.com/acme/widgets.git''),
           (''description'', JString ''A widget''),
           (''mirror'', JBool True),
           (''private'', JBool False),
           (''repo_name'', JString ''widgets''),
           (''repo_owner'', JString ''acme''),
           (''service'', JString ''github''),
           (''wiki'', JBool True) ]))),
       LogPrintln ''Repository created: https://gitea.local/acme/widgets'' ]"
  by (simp add: migrateRepo_def answering_def respond_def ReadString_def sliceTo_def matchHere_re
      getGitHubRepo_def githubRequest_def githubResponse_def UnmarshalGitHubRepo_def
      zeroGitHubRepo_def equalFold_def toUpperASCII_def storeString_def storeBool_def
      createGiteaRepository_def migrateOptions_def Marshal_def Let_def giteaRequest_def
      giteaResponse_def UnmarshalGiteaRepo_def zeroGiteaRepo_def storeInt64_def classify_def
      deferredClose_def exampleOptions_def toValidUTF8_ascii byte_def)


end
